theory Spec2Isabelle
  imports Complex_Main "HOL-Library.Char_ord" "HOL-Library.List_Lexorder" "HOL-Library.Log_Nat"
begin

section \<open>JavaScript numbers\<close>

text \<open>
  The TypeScript type \<open>number\<close> is the IEEE 754 binary64 format: the finite values
  \<open>m * 2 ^ k\<close> with \<open>\<bar>m\<bar> < 2 ^ 53\<close>, \<open>- 1074 \<le> k\<close> and magnitude below \<open>2 ^ 1024\<close>, the two
  infinities and \<open>NaN\<close>. A finite value is kept as the rational it denotes. The two zeros
  are one value here: the code never tells them apart (its sums start from \<open>+0\<close>, so the
  only divisor that can be zero is \<open>+0\<close>, and the forms replace a falsy input by \<open>0\<close>).
\<close>

datatype jsnum = Finite rat | PosInfinity | NegInfinity | NaN

type_synonym number = jsnum

text \<open>
  \<open>ilog2 a\<close> is the integer \<open>e\<close> with \<open>2 ^ e \<le> a < 2 ^ (e + 1)\<close>, for positive \<open>a\<close>.
\<close>

definition ilog2 :: "rat \<Rightarrow> int" where
  "ilog2 a = (if a \<ge> 1 then int (floorlog 2 (nat \<lfloor>a\<rfloor>)) - 1
              else - int (floorlog 2 (nat (\<lceil>1 / a\<rceil> - 1))))"

definition roundTiesToEven :: "rat \<Rightarrow> int" where
  "roundTiesToEven m =
     (let f = \<lfloor>m\<rfloor>; d = m - of_int f
      in if d < 1 / 2 then f else if d > 1 / 2 then f + 1 else if even f then f else f + 1)"

text \<open>
  Rounding of an exact result to binary64, to nearest with ties to even: the result is
  a multiple of the unit in the last place \<open>2 ^ (e - 52)\<close>, where the exponent \<open>e\<close> is at
  least \<open>- 1022\<close> (below that the values are subnormal), and a result that reaches
  \<open>2 ^ 1024\<close> overflows to an infinity.
\<close>

definition round64 :: "rat \<Rightarrow> jsnum" where
  "round64 q =
     (if q = 0 then Finite 0
      else
        let a = \<bar>q\<bar>;
            e = max (ilog2 a) (- 1022);
            u = 2 powi (e - 52);
            r = of_int (roundTiesToEven (a / u)) * u
        in if r \<ge> 2 powi 1024 then (if q > 0 then PosInfinity else NegInfinity)
           else Finite (if q > 0 then r else - r))"

fun js_uminus :: "jsnum \<Rightarrow> jsnum" where
  "js_uminus (Finite a) = Finite (- a)"
| "js_uminus PosInfinity = NegInfinity"
| "js_uminus NegInfinity = PosInfinity"
| "js_uminus NaN = NaN"

text \<open>The operators \<open>+\<close>, \<open>-\<close>, \<open>*\<close> and \<open>/\<close> on numbers.\<close>

fun js_plus :: "jsnum \<Rightarrow> jsnum \<Rightarrow> jsnum" where
  "js_plus NaN y = NaN"
| "js_plus x NaN = NaN"
| "js_plus (Finite a) (Finite b) = round64 (a + b)"
| "js_plus (Finite a) y = y"
| "js_plus x (Finite b) = x"
| "js_plus PosInfinity PosInfinity = PosInfinity"
| "js_plus NegInfinity NegInfinity = NegInfinity"
| "js_plus PosInfinity NegInfinity = NaN"
| "js_plus NegInfinity PosInfinity = NaN"

definition js_minus :: "jsnum \<Rightarrow> jsnum \<Rightarrow> jsnum" where
  "js_minus x y = js_plus x (js_uminus y)"

fun js_times :: "jsnum \<Rightarrow> jsnum \<Rightarrow> jsnum" where
  "js_times NaN y = NaN"
| "js_times x NaN = NaN"
| "js_times (Finite a) (Finite b) = round64 (a * b)"
| "js_times (Finite a) PosInfinity =
     (if a = 0 then NaN else if a > 0 then PosInfinity else NegInfinity)"
| "js_times (Finite a) NegInfinity =
     (if a = 0 then NaN else if a > 0 then NegInfinity else PosInfinity)"
| "js_times PosInfinity (Finite b) =
     (if b = 0 then NaN else if b > 0 then PosInfinity else NegInfinity)"
| "js_times NegInfinity (Finite b) =
     (if b = 0 then NaN else if b > 0 then NegInfinity else PosInfinity)"
| "js_times PosInfinity PosInfinity = PosInfinity"
| "js_times NegInfinity NegInfinity = PosInfinity"
| "js_times PosInfinity NegInfinity = NegInfinity"
| "js_times NegInfinity PosInfinity = NegInfinity"

fun js_div :: "jsnum \<Rightarrow> jsnum \<Rightarrow> jsnum" where
  "js_div NaN y = NaN"
| "js_div x NaN = NaN"
| "js_div (Finite a) (Finite b) =
     (if b \<noteq> 0 then round64 (a / b)
      else if a = 0 then NaN
      else if a > 0 then PosInfinity else NegInfinity)"
| "js_div (Finite a) y = Finite 0"
| "js_div PosInfinity (Finite b) = (if b \<ge> 0 then PosInfinity else NegInfinity)"
| "js_div NegInfinity (Finite b) = (if b \<ge> 0 then NegInfinity else PosInfinity)"
| "js_div x y = NaN"

text \<open>The comparisons \<open><\<close>, \<open><=\<close>, \<open>>\<close> and \<open>>=\<close>: false as soon as an operand is \<open>NaN\<close>.\<close>

fun js_lt :: "jsnum \<Rightarrow> jsnum \<Rightarrow> bool" where
  "js_lt NaN y = False"
| "js_lt x NaN = False"
| "js_lt (Finite a) (Finite b) = (a < b)"
| "js_lt (Finite a) PosInfinity = True"
| "js_lt (Finite a) NegInfinity = False"
| "js_lt PosInfinity y = False"
| "js_lt NegInfinity NegInfinity = False"
| "js_lt NegInfinity y = True"

definition js_le :: "jsnum \<Rightarrow> jsnum \<Rightarrow> bool" where
  "js_le x y = (x \<noteq> NaN \<and> y \<noteq> NaN \<and> (js_lt x y \<or> x = y))"

definition js_gt :: "jsnum \<Rightarrow> jsnum \<Rightarrow> bool" where
  "js_gt x y = js_lt y x"

definition js_ge :: "jsnum \<Rightarrow> jsnum \<Rightarrow> bool" where
  "js_ge x y = js_le y x"

text \<open>\<open>x || 0\<close>: the falsy numbers are \<open>0\<close> and \<open>NaN\<close>.\<close>

definition js_or0 :: "jsnum \<Rightarrow> jsnum" where
  "js_or0 x = (if x = Finite 0 \<or> x = NaN then Finite 0 else x)"

text \<open>\<open>Math.max\<close> of two numbers.\<close>

definition js_max :: "jsnum \<Rightarrow> jsnum \<Rightarrow> jsnum" where
  "js_max x y = (if x = NaN \<or> y = NaN then NaN else if js_lt x y then y else x)"

text \<open>
  The total of a list of numbers, added up from the left starting from \<open>0\<close>, as
  \<open>reduce((sum, x) => sum + x, 0)\<close> does.
\<close>

definition js_sum :: "number list \<Rightarrow> number" where
  "js_sum xs = foldl js_plus (Finite 0) xs"

section \<open>Data model of the water-delivery ledger (src/app/dashboard/page.tsx)\<close>

text \<open>
  The interfaces \<open>Customer\<close>, \<open>Delivery\<close>, \<open>Payment\<close> and \<open>Expense\<close> share field names; each
  record prefixes its fields with the initial of the interface. A string is kept as the
  list of the bytes of its UTF-8 encoding: two strings are equal exactly when their byte
  lists are, and on the date strings, which are ASCII, the order of the byte lists is the
  order of \<open><=\<close> on strings.
\<close>

datatype PaymentMethod = cash | bank | online

datatype PaymentStatus = full | partial | pending

record Customer =
  c_id :: string
  c_flatNumber :: string
  c_name :: string
  c_phone :: string
  c_rate :: number
  c_createdAt :: string

record Delivery =
  d_id :: string
  d_date :: string
  d_flatNumber :: string
  d_customerName :: string
  d_delivered :: number
  d_collected :: number
  d_notes :: string
  d_amount :: number
  d_createdAt :: string

record Payment =
  p_id :: string
  p_date :: string
  p_flatNumber :: string
  p_customerName :: string
  p_totalBill :: number
  p_amountReceived :: number
  p_remainingBalance :: number
  p_paymentMethod :: PaymentMethod
  p_status :: PaymentStatus
  p_notes :: string
  p_createdAt :: string

record Expense =
  e_id :: string
  e_date :: string
  e_category :: string
  e_description :: string
  e_amount :: number
  e_paymentMethod :: PaymentMethod
  e_notes :: string
  e_createdAt :: string

record AppData =
  customers :: "Customer list"
  deliveries :: "Delivery list"
  payments :: "Payment list"
  expenses :: "Expense list"
  lastSaved :: string

text \<open>\<open>Partial<AppData>\<close>: a field that is \<open>None\<close> is absent from the object.\<close>

record PartialAppData =
  u_customers :: "Customer list option"
  u_deliveries :: "Delivery list option"
  u_payments :: "Payment list option"
  u_expenses :: "Expense list option"
  u_lastSaved :: "string option"

definition noUpdates :: PartialAppData where
  "noUpdates = \<lparr>u_customers = None, u_deliveries = None, u_payments = None,
     u_expenses = None, u_lastSaved = None\<rparr>"

section \<open>Storage\<close>

text \<open>
  What \<open>localStorage.setItem(key, JSON.stringify(updated))\<close> can throw inside the
  \<open>try\<close> block of \<open>saveData\<close>.
\<close>

datatype error = QuotaExceededError | SerializationError

text \<open>The object spread \<open>{ ...currentData, ...updates, lastSaved: now }\<close>.\<close>

definition spread :: "AppData \<Rightarrow> PartialAppData \<Rightarrow> string \<Rightarrow> AppData" where
  "spread currentData updates now =
     \<lparr>customers = (case u_customers updates of None \<Rightarrow> customers currentData | Some v \<Rightarrow> v),
      deliveries = (case u_deliveries updates of None \<Rightarrow> deliveries currentData | Some v \<Rightarrow> v),
      payments = (case u_payments updates of None \<Rightarrow> payments currentData | Some v \<Rightarrow> v),
      expenses = (case u_expenses updates of None \<Rightarrow> expenses currentData | Some v \<Rightarrow> v),
      lastSaved = now\<rparr>"

text \<open>
  \<open>Storage.saveData(userId, updates, currentData)\<close>. The first argument is the storage
  medium: \<open>setItem key value\<close> is \<open>Inr ()\<close> when the write returns and \<open>Inl e\<close> when it
  throws \<open>e\<close>. The second is the result of \<open>new Date().toISOString()\<close>. The result is
  \<open>Inr\<close> of the returned snapshot, \<open>Inl\<close> of an exception that reaches the caller.
\<close>

definition saveData ::
  "(string \<Rightarrow> AppData \<Rightarrow> error + unit) \<Rightarrow> string \<Rightarrow> string \<Rightarrow> PartialAppData \<Rightarrow> AppData
     \<Rightarrow> error + AppData" where
  "saveData setItem now userId updates currentData =
     (let updated = spread currentData updates now
      in case setItem (''crm_'' @ userId) updated of
           Inr _ \<Rightarrow> Inr updated
         | Inl _ \<Rightarrow> Inr currentData)"

section \<open>Calculator\<close>

definition getCustomerOutstanding :: "string \<Rightarrow> Delivery list \<Rightarrow> Payment list \<Rightarrow> number" where
  "getCustomerOutstanding flatNumber ds ps =
     (let totalBilled = foldl (\<lambda>sum d. js_plus sum (d_amount d)) (Finite 0)
                          (filter (\<lambda>d. d_flatNumber d = flatNumber) ds);
          totalPaid = foldl (\<lambda>sum p. js_plus sum (p_amountReceived p)) (Finite 0)
                        (filter (\<lambda>p. p_flatNumber p = flatNumber) ps)
      in js_minus totalBilled totalPaid)"

record DateRangeStats =
  s_deliveries :: nat
  s_bottlesDelivered :: number
  s_revenue :: number
  s_collected :: number
  s_expenses :: number
  s_profit :: number
  s_empties :: number

text \<open>
  The comparisons \<open>d.date >= startDate && d.date <= endDate\<close> are JavaScript string
  comparisons: lexicographic on the code units, which is the order of \<open>string\<close> here.
\<close>

definition getDateRangeStats ::
  "Delivery list \<Rightarrow> Payment list \<Rightarrow> Expense list \<Rightarrow> string \<Rightarrow> string \<Rightarrow> DateRangeStats" where
  "getDateRangeStats ds ps es startDate endDate =
     (let filtered = filter (\<lambda>d. d_date d \<ge> startDate \<and> d_date d \<le> endDate) ds;
          filteredPayments = filter (\<lambda>p. p_date p \<ge> startDate \<and> p_date p \<le> endDate) ps;
          filteredExpenses = filter (\<lambda>e. e_date e \<ge> startDate \<and> e_date e \<le> endDate) es
      in \<lparr>s_deliveries = length filtered,
          s_bottlesDelivered = foldl (\<lambda>sum d. js_plus sum (d_delivered d)) (Finite 0) filtered,
          s_revenue = foldl (\<lambda>sum d. js_plus sum (d_amount d)) (Finite 0) filtered,
          s_collected = foldl (\<lambda>sum p. js_plus sum (p_amountReceived p)) (Finite 0) filteredPayments,
          s_expenses = foldl (\<lambda>sum e. js_plus sum (e_amount e)) (Finite 0) filteredExpenses,
          s_profit = js_minus
                       (foldl (\<lambda>sum p. js_plus sum (p_amountReceived p)) (Finite 0)
                          filteredPayments)
                       (foldl (\<lambda>sum e. js_plus sum (e_amount e)) (Finite 0)
                          filteredExpenses),
          s_empties = foldl (\<lambda>sum d. js_plus sum (d_collected d)) (Finite 0) filtered\<rparr>)"

text \<open>
  One entry of the list returned by \<open>getOverdueDues\<close>. \<open>isOverdue\<close> is
  \<open>dueDate && dueDate < thirtyDaysAgo\<close>, which is \<open>null\<close> (here \<open>None\<close>) when the customer
  has no delivery.
\<close>

record Due =
  due_customer :: Customer
  due_outstanding :: number
  due_lastDeliveryDate :: string
  due_lastPaymentDate :: string
  due_daysPending :: int
  due_isOverdue :: "bool option"

text \<open>\<open>xs[0]\<close>: \<open>undefined\<close> on an empty array.\<close>

definition first :: "'a list \<Rightarrow> 'a option" where
  "first xs = (case xs of [] \<Rightarrow> None | x # _ \<Rightarrow> Some x)"

text \<open>
  The body of the \<open>customers.map\<close> callback of \<open>getOverdueDues\<close>; \<open>None\<close> is the
  \<open>null\<close> returned for a customer without debt. \<open>getTime s\<close> is
  \<open>new Date(s).getTime()\<close>, the milliseconds since the epoch of a stored date string,
  and \<open>today\<close> is \<open>new Date().getTime()\<close>. \<open>Array.prototype.sort\<close> is stable, and the
  comparator \<open>getTime b - getTime a\<close> orders by descending time: this is the stable
  \<open>sort_key\<close> on the negated time.
\<close>

definition overdueEntry ::
  "(string \<Rightarrow> int) \<Rightarrow> int \<Rightarrow> Delivery list \<Rightarrow> Payment list \<Rightarrow> Customer \<Rightarrow> Due option" where
  "overdueEntry getTime today ds ps c =
     (let thirtyDaysAgo = today - 30 * 24 * 60 * 60 * 1000;
          outstanding = getCustomerOutstanding (c_flatNumber c) ds ps
      in if js_le outstanding (Finite 0) then None
         else
           let lastDelivery = first (sort_key (\<lambda>d. - getTime (d_date d))
                                (filter (\<lambda>d. d_flatNumber d = c_flatNumber c) ds));
               lastPayment = first (sort_key (\<lambda>p. - getTime (p_date p))
                               (filter (\<lambda>p. p_flatNumber p = c_flatNumber c) ps));
               dueDate = map_option (\<lambda>d. getTime (d_date d)) lastDelivery;
               isOverdue = map_option (\<lambda>t. t < thirtyDaysAgo) dueDate;
               daysPending = (case dueDate of
                                Some t \<Rightarrow> (today - t) div (1000 * 60 * 60 * 24)
                              | None \<Rightarrow> 0)
           in Some \<lparr>due_customer = c, due_outstanding = outstanding,
                    due_lastDeliveryDate = (case lastDelivery of Some d \<Rightarrow> d_date d | None \<Rightarrow> []),
                    due_lastPaymentDate = (case lastPayment of Some p \<Rightarrow> p_date p | None \<Rightarrow> []),
                    due_daysPending = daysPending, due_isOverdue = isOverdue\<rparr>)"

text \<open>\<open>customers.map(c => ...).filter(Boolean)\<close>.\<close>

definition getOverdueDues ::
  "(string \<Rightarrow> int) \<Rightarrow> int \<Rightarrow> Customer list \<Rightarrow> Delivery list \<Rightarrow> Payment list \<Rightarrow> Due list" where
  "getOverdueDues getTime today cs ds ps =
     map the (filter (\<lambda>r. r \<noteq> None) (map (overdueEntry getTime today ds ps) cs))"

section \<open>Collection rate of the reports tab\<close>

text \<open>
  The expression \<open>(stats.totalCollected / stats.totalRevenue) * 100 || 0\<close>, whose value
  the reports tab prints with \<open>toFixed(1)\<close>.
\<close>

definition collectionRate :: "number \<Rightarrow> number \<Rightarrow> jsnum" where
  "collectionRate totalCollected totalRevenue =
     js_or0 (js_times (js_div totalCollected totalRevenue) (Finite 100))"

text \<open>The totals of \<open>getStats\<close> that the collection rate reads.\<close>

definition totalRevenue :: "AppData \<Rightarrow> number" where
  "totalRevenue dat = foldl (\<lambda>sum d. js_plus sum (d_amount d)) (Finite 0) (deliveries dat)"

definition totalCollected :: "AppData \<Rightarrow> number" where
  "totalCollected dat = foldl (\<lambda>sum p. js_plus sum (p_amountReceived p)) (Finite 0) (payments dat)"

text \<open>The rate printed for a snapshot of the collections.\<close>

definition reportedRate :: "AppData \<Rightarrow> jsnum" where
  "reportedRate dat = collectionRate (totalCollected dat) (totalRevenue dat)"

section \<open>Top customers by revenue of the reports tab\<close>

text \<open>
  \<open>data.customers.map(c => ({ ...c, revenue: ... }))\<close>: each customer with the total of
  the amounts of the deliveries to its flat number.
\<close>

definition withRevenue :: "Customer list \<Rightarrow> Delivery list \<Rightarrow> (Customer \<times> number) list" where
  "withRevenue cs ds =
     map (\<lambda>c. (c, foldl (\<lambda>sum d. js_plus sum (d_amount d)) (Finite 0)
                     (filter (\<lambda>d. d_flatNumber d = c_flatNumber c) ds))) cs"

text \<open>
  \<open>.sort((a, b) => b.revenue - a.revenue).slice(0, 10)\<close>. The first argument is the
  built-in \<open>Array.prototype.sort\<close>, applied to the comparator: what it returns when the
  comparator yields \<open>NaN\<close> is left to the engine.
\<close>

definition topCustomers ::
  "(((Customer \<times> number) \<Rightarrow> (Customer \<times> number) \<Rightarrow> number) \<Rightarrow> (Customer \<times> number) list
      \<Rightarrow> (Customer \<times> number) list)
   \<Rightarrow> Customer list \<Rightarrow> Delivery list \<Rightarrow> (Customer \<times> number) list" where
  "topCustomers arraySort cs ds =
     take 10 (arraySort (\<lambda>a b. js_minus (snd b) (snd a)) (withRevenue cs ds))"

section \<open>The component \<open>WaterCRM\<close>: state, environment and event handlers\<close>

record CustomerForm =
  cf_flatNumber :: string
  cf_name :: string
  cf_phone :: string
  cf_rate :: number

record DeliveryForm =
  df_date :: string
  df_flatNumber :: string
  df_delivered :: number
  df_collected :: number
  df_notes :: string

record PaymentForm =
  pf_date :: string
  pf_flatNumber :: string
  pf_amountReceived :: number
  pf_method :: PaymentMethod
  pf_notes :: string

record ExpenseForm =
  ef_date :: string
  ef_category :: string
  ef_description :: string
  ef_amount :: number
  ef_method :: PaymentMethod
  ef_notes :: string

datatype Modal = delivery | payment | customer | expense | dueDetail

text \<open>
  The \<open>useState\<close> cells the handlers read and write, and the messages passed to
  \<open>alert\<close> so far, oldest first (without the leading pictograph of the source).
\<close>

record State =
  data :: AppData
  customerForm :: CustomerForm
  deliveryForm :: DeliveryForm
  paymentForm :: PaymentForm
  expenseForm :: ExpenseForm
  showModal :: "Modal option"
  alerts :: "string list"

text \<open>
  What one handler call takes from outside the component: the signed-in user's id
  (\<open>user?.id\<close>), the answer to \<open>confirm\<close>, \<open>Date.now()\<close>,
  \<open>new Date().toISOString()\<close>, the behaviour of the storage medium, and the built-in
  \<open>String.prototype.toLowerCase\<close> with its Unicode case mapping.
\<close>

record Env =
  userId :: "string option"
  confirmed :: bool
  now :: nat
  isoNow :: string
  setItem :: "string \<Rightarrow> AppData \<Rightarrow> error + unit"
  toLowerCase :: "string \<Rightarrow> string"

text \<open>The decimal digits of \<open>Date.now()\<close> in a template string.\<close>

fun decimal :: "nat \<Rightarrow> string" where
  "decimal n =
     (if n < 10 then [''0123456789'' ! n]
      else decimal (n div 10) @ [''0123456789'' ! (n mod 10)])"

declare decimal.simps [simp del]

text \<open>\<open>DateUtils.getTodayString\<close>: \<open>new Date().toISOString().split('T')[0]\<close>.\<close>

definition getTodayString :: "Env \<Rightarrow> string" where
  "getTodayString env = takeWhile (\<lambda>c. c \<noteq> CHR ''T'') (isoNow env)"

definition alert :: "string \<Rightarrow> State \<Rightarrow> State" where
  "alert msg st = st\<lparr>alerts := alerts st @ [msg]\<rparr>"

text \<open>
  \<open>saveAndReload\<close>: nothing happens without a user id (\<open>undefined\<close> and the empty string
  are both falsy); an exception of \<open>saveData\<close> would leave through the \<open>await\<close>.
\<close>

definition saveAndReload :: "Env \<Rightarrow> PartialAppData \<Rightarrow> State \<Rightarrow> error + State" where
  "saveAndReload env updates st =
     (case userId env of
        None \<Rightarrow> Inr st
      | Some uid \<Rightarrow>
          if uid = [] then Inr st
          else (case saveData (setItem env) (isoNow env) uid updates (data st) of
                  Inl e \<Rightarrow> Inl e
                | Inr updated \<Rightarrow> Inr (st\<lparr>data := updated\<rparr>)))"

definition addCustomer :: "Env \<Rightarrow> State \<Rightarrow> error + State" where
  "addCustomer env st =
     (let f = customerForm st in
      if cf_flatNumber f = [] \<or> cf_name f = [] then Inr (alert ''Please fill required fields'' st)
      else if find (\<lambda>c. toLowerCase env (c_flatNumber c) = toLowerCase env (cf_flatNumber f))
                (customers (data st)) \<noteq> None
      then Inr (alert ''Flat number exists!'' st)
      else
        let newCustomer = \<lparr>c_id = ''cust_'' @ decimal (now env), c_flatNumber = cf_flatNumber f,
                             c_name = cf_name f, c_phone = cf_phone f, c_rate = cf_rate f,
                             c_createdAt = isoNow env\<rparr>
        in case saveAndReload env
                  (noUpdates\<lparr>u_customers := Some (customers (data st) @ [newCustomer])\<rparr>) st of
             Inl e \<Rightarrow> Inl e
           | Inr st1 \<Rightarrow>
               Inr (alert ''Customer added!''
                      (st1\<lparr>customerForm := \<lparr>cf_flatNumber = [], cf_name = [], cf_phone = [],
                                               cf_rate = Finite 30\<rparr>,
                            showModal := None\<rparr>)))"

definition deleteCustomer :: "Env \<Rightarrow> string \<Rightarrow> State \<Rightarrow> error + State" where
  "deleteCustomer env i st =
     (if \<not> confirmed env then Inr st
      else case find (\<lambda>c. c_id c = i) (customers (data st)) of
             None \<Rightarrow> Inr st
           | Some c \<Rightarrow>
               saveAndReload env
                 (noUpdates\<lparr>u_customers := Some (filter (\<lambda>c. c_id c \<noteq> i) (customers (data st))),
                            u_deliveries := Some (filter (\<lambda>d. d_flatNumber d \<noteq> c_flatNumber c)
                                                    (deliveries (data st))),
                            u_payments := Some (filter (\<lambda>p. p_flatNumber p \<noteq> c_flatNumber c)
                                                  (payments (data st)))\<rparr>) st)"

definition addDelivery :: "Env \<Rightarrow> State \<Rightarrow> error + State" where
  "addDelivery env st =
     (let f = deliveryForm st in
      if df_date f = [] \<or> df_flatNumber f = [] \<or> df_delivered f = Finite 0
      then Inr (alert ''Please fill required fields'' st)
      else case find (\<lambda>c. c_flatNumber c = df_flatNumber f) (customers (data st)) of
             None \<Rightarrow> Inr st
           | Some c \<Rightarrow>
               let newDelivery = \<lparr>d_id = ''del_'' @ decimal (now env), d_date = df_date f,
                                    d_flatNumber = df_flatNumber f, d_customerName = c_name c,
                                    d_delivered = df_delivered f, d_collected = df_collected f,
                                    d_notes = df_notes f, d_amount = js_times (df_delivered f) (c_rate c),
                                    d_createdAt = isoNow env\<rparr>
               in (case saveAndReload env
                          (noUpdates\<lparr>u_deliveries := Some (deliveries (data st) @ [newDelivery])\<rparr>) st of
                     Inl e \<Rightarrow> Inl e
                   | Inr st1 \<Rightarrow>
                       Inr (alert ''Delivery recorded!''
                              (st1\<lparr>deliveryForm := \<lparr>df_date = getTodayString env, df_flatNumber = [],
                                                       df_delivered = Finite 1, df_collected = Finite 0,
                                                       df_notes = []\<rparr>,
                                    showModal := None\<rparr>))))"

definition deleteDelivery :: "Env \<Rightarrow> string \<Rightarrow> State \<Rightarrow> error + State" where
  "deleteDelivery env i st =
     (if confirmed env
      then saveAndReload env
             (noUpdates\<lparr>u_deliveries := Some (filter (\<lambda>d. d_id d \<noteq> i) (deliveries (data st)))\<rparr>) st
      else Inr st)"

text \<open>
  The payment status chosen by \<open>addPayment\<close> from the amount received and the
  outstanding balance: the \<open>let status = 'pending'; if ... else if ...\<close> of the source.
\<close>

definition paymentStatus :: "number \<Rightarrow> number \<Rightarrow> PaymentStatus" where
  "paymentStatus amountReceived outstanding =
     (if js_ge amountReceived outstanding \<and> js_gt outstanding (Finite 0) then full
      else if js_gt amountReceived (Finite 0) \<and> js_lt amountReceived outstanding then partial
      else pending)"

definition addPayment :: "Env \<Rightarrow> State \<Rightarrow> error + State" where
  "addPayment env st =
     (let f = paymentForm st in
      if pf_date f = [] \<or> pf_flatNumber f = [] \<or> pf_amountReceived f = Finite 0
      then Inr (alert ''Please fill required fields'' st)
      else case find (\<lambda>c. c_flatNumber c = pf_flatNumber f) (customers (data st)) of
             None \<Rightarrow> Inr st
           | Some c \<Rightarrow>
               let outstanding = getCustomerOutstanding (pf_flatNumber f)
                                   (deliveries (data st)) (payments (data st));
                   remaining = js_minus outstanding (pf_amountReceived f);
                   status = paymentStatus (pf_amountReceived f) outstanding;
                   newPayment = \<lparr>p_id = ''pay_'' @ decimal (now env), p_date = pf_date f,
                                   p_flatNumber = pf_flatNumber f, p_customerName = c_name c,
                                   p_totalBill = outstanding,
                                   p_amountReceived = pf_amountReceived f,
                                   p_remainingBalance = (if js_gt remaining (Finite 0) then remaining
                                                         else Finite 0),
                                   p_paymentMethod = pf_method f, p_status = status,
                                   p_notes = pf_notes f, p_createdAt = isoNow env\<rparr>
               in (case saveAndReload env
                          (noUpdates\<lparr>u_payments := Some (payments (data st) @ [newPayment])\<rparr>) st of
                     Inl e \<Rightarrow> Inl e
                   | Inr st1 \<Rightarrow>
                       Inr (alert ''Payment recorded!''
                              (st1\<lparr>paymentForm := \<lparr>pf_date = getTodayString env, pf_flatNumber = [],
                                                      pf_amountReceived = Finite 0, pf_method = cash,
                                                      pf_notes = []\<rparr>,
                                    showModal := None\<rparr>))))"

definition deletePayment :: "Env \<Rightarrow> string \<Rightarrow> State \<Rightarrow> error + State" where
  "deletePayment env i st =
     (if confirmed env
      then saveAndReload env
             (noUpdates\<lparr>u_payments := Some (filter (\<lambda>p. p_id p \<noteq> i) (payments (data st)))\<rparr>) st
      else Inr st)"

definition addExpense :: "Env \<Rightarrow> State \<Rightarrow> error + State" where
  "addExpense env st =
     (let f = expenseForm st in
      if ef_date f = [] \<or> ef_description f = [] \<or> ef_amount f = Finite 0
      then Inr (alert ''Please fill required fields'' st)
      else
        let newExpense = \<lparr>e_id = ''exp_'' @ decimal (now env), e_date = ef_date f,
                            e_category = ef_category f, e_description = ef_description f,
                            e_amount = ef_amount f, e_paymentMethod = ef_method f,
                            e_notes = ef_notes f, e_createdAt = isoNow env\<rparr>
        in case saveAndReload env
                  (noUpdates\<lparr>u_expenses := Some (expenses (data st) @ [newExpense])\<rparr>) st of
             Inl e \<Rightarrow> Inl e
           | Inr st1 \<Rightarrow>
               Inr (alert ''Expense recorded!''
                      (st1\<lparr>expenseForm := \<lparr>ef_date = getTodayString env, ef_category = ''supplies'',
                                              ef_description = [], ef_amount = Finite 0, ef_method = cash,
                                              ef_notes = []\<rparr>,
                            showModal := None\<rparr>)))"

definition deleteExpense :: "Env \<Rightarrow> string \<Rightarrow> State \<Rightarrow> error + State" where
  "deleteExpense env i st =
     (if confirmed env
      then saveAndReload env
             (noUpdates\<lparr>u_expenses := Some (filter (\<lambda>e. e_id e \<noteq> i) (expenses (data st)))\<rparr>) st
      else Inr st)"

text \<open>
  The user's actions on the component: the eight record handlers, the edits of the four
  forms (\<open>setCustomerForm\<close> and its siblings, called by the inputs) and the opening or
  closing of a modal.
\<close>

datatype Action =
    AddCustomer | DeleteCustomer string
  | AddDelivery | DeleteDelivery string
  | AddPayment | DeletePayment string
  | AddExpense | DeleteExpense string
  | SetCustomerForm CustomerForm | SetDeliveryForm DeliveryForm
  | SetPaymentForm PaymentForm | SetExpenseForm ExpenseForm
  | SetShowModal "Modal option"

fun step :: "Env \<Rightarrow> Action \<Rightarrow> State \<Rightarrow> error + State" where
  "step env AddCustomer st = addCustomer env st"
| "step env (DeleteCustomer i) st = deleteCustomer env i st"
| "step env AddDelivery st = addDelivery env st"
| "step env (DeleteDelivery i) st = deleteDelivery env i st"
| "step env AddPayment st = addPayment env st"
| "step env (DeletePayment i) st = deletePayment env i st"
| "step env AddExpense st = addExpense env st"
| "step env (DeleteExpense i) st = deleteExpense env i st"
| "step env (SetCustomerForm f) st = Inr (st\<lparr>customerForm := f\<rparr>)"
| "step env (SetDeliveryForm f) st = Inr (st\<lparr>deliveryForm := f\<rparr>)"
| "step env (SetPaymentForm f) st = Inr (st\<lparr>paymentForm := f\<rparr>)"
| "step env (SetExpenseForm f) st = Inr (st\<lparr>expenseForm := f\<rparr>)"
| "step env (SetShowModal m) st = Inr (st\<lparr>showModal := m\<rparr>)"

text \<open>
  A run of the component: each action meets its own environment; an exception ends
  the run.
\<close>

fun run :: "(Env \<times> Action) list \<Rightarrow> State \<Rightarrow> error + State" where
  "run [] st = Inr st"
| "run ((env, a) # rest) st =
     (case step env a st of Inl e \<Rightarrow> Inl e | Inr st1 \<Rightarrow> run rest st1)"

section \<open>A worked ledger\<close>

text \<open>
  The scenario of the specification: customer A1 pays 30 per bottle, took 10 bottles
  on 20 January 2025 (amount 300) and paid 100 on 10 February; now, on 1 March at
  10:00 UTC, forty days after the delivery, a payment of 200 is being entered.
\<close>

text \<open>
  \<open>toLowerCase\<close> on strings of ASCII characters, which the flat numbers of the worked
  ledger are: the letters A to Z are lowered, every other byte is kept.
\<close>

definition lowerAscii :: "string \<Rightarrow> string" where
  "lowerAscii s =
     map (\<lambda>c. case map_of (zip ''ABCDEFGHIJKLMNOPQRSTUVWXYZ'' ''abcdefghijklmnopqrstuvwxyz'') c of
                 Some l \<Rightarrow> l
               | None \<Rightarrow> c) s"

text \<open>
  A stable insertion sort by a comparator, as an engine sorts when the comparator is
  consistent.
\<close>

fun insertBy :: "('a \<Rightarrow> 'a \<Rightarrow> number) \<Rightarrow> 'a \<Rightarrow> 'a list \<Rightarrow> 'a list" where
  "insertBy cmp x [] = [x]"
| "insertBy cmp x (y # ys) =
     (if js_gt (cmp x y) (Finite 0) then y # insertBy cmp x ys else x # y # ys)"

definition sortBy :: "('a \<Rightarrow> 'a \<Rightarrow> number) \<Rightarrow> 'a list \<Rightarrow> 'a list" where
  "sortBy cmp xs = foldr (insertBy cmp) xs []"

definition ex_env :: Env where
  "ex_env = \<lparr>userId = Some ''user_1'', confirmed = True, now = 1740823200000,
              isoNow = ''2025-03-01T10:00:00.000Z'', setItem = (\<lambda>key value. Inr ()),
              toLowerCase = lowerAscii\<rparr>"

definition ex_getTime :: "string \<Rightarrow> int" where
  "ex_getTime s =
     (if s = ''2025-01-20'' then 1737331200000
      else if s = ''2025-02-10'' then 1739145600000
      else 0)"

definition ex_customer :: Customer where
  "ex_customer = \<lparr>c_id = ''cust_1737000000000'', c_flatNumber = ''A1'', c_name = ''Ali'',
                   c_phone = ''03001234567'', c_rate = Finite 30,
                   c_createdAt = ''2025-01-16T04:00:00.000Z''\<rparr>"

definition ex_delivery :: Delivery where
  "ex_delivery = \<lparr>d_id = ''del_1737360000000'', d_date = ''2025-01-20'', d_flatNumber = ''A1'',
                   d_customerName = ''Ali'', d_delivered = Finite 10, d_collected = Finite 0, d_notes = [],
                   d_amount = Finite 300, d_createdAt = ''2025-01-20T08:00:00.000Z''\<rparr>"

definition ex_payment :: Payment where
  "ex_payment = \<lparr>p_id = ''pay_1739180000000'', p_date = ''2025-02-10'', p_flatNumber = ''A1'',
                  p_customerName = ''Ali'', p_totalBill = Finite 300, p_amountReceived = Finite 100,
                  p_remainingBalance = Finite 200, p_paymentMethod = cash, p_status = partial,
                  p_notes = [], p_createdAt = ''2025-02-10T09:33:20.000Z''\<rparr>"

definition ex_expense :: Expense where
  "ex_expense = \<lparr>e_id = ''exp_1739600000000'', e_date = ''2025-02-15'', e_category = ''fuel'',
                  e_description = ''petrol'', e_amount = Finite 50, e_paymentMethod = cash,
                  e_notes = [], e_createdAt = ''2025-02-15T06:13:20.000Z''\<rparr>"

definition ex_data :: AppData where
  "ex_data = \<lparr>customers = [ex_customer], deliveries = [ex_delivery], payments = [ex_payment],
               expenses = [ex_expense], lastSaved = ''2025-02-15T06:13:20.000Z''\<rparr>"

text \<open>The state of a freshly mounted component, with the forms as \<open>useState\<close> starts them.\<close>

definition initial :: "AppData \<Rightarrow> string \<Rightarrow> State" where
  "initial dat today =
     \<lparr>data = dat,
      customerForm = \<lparr>cf_flatNumber = [], cf_name = [], cf_phone = [], cf_rate = Finite 30\<rparr>,
      deliveryForm = \<lparr>df_date = today, df_flatNumber = [], df_delivered = Finite 1, df_collected = Finite 0,
                       df_notes = []\<rparr>,
      paymentForm = \<lparr>pf_date = today, pf_flatNumber = [], pf_amountReceived = Finite 0,
                      pf_method = cash, pf_notes = []\<rparr>,
      expenseForm = \<lparr>ef_date = today, ef_category = ''supplies'', ef_description = [],
                      ef_amount = Finite 0, ef_method = cash, ef_notes = []\<rparr>,
      showModal = None, alerts = []\<rparr>"

definition ex_paymentForm :: "string \<Rightarrow> number \<Rightarrow> PaymentForm" where
  "ex_paymentForm flat amt =
     \<lparr>pf_date = ''2025-03-01'', pf_flatNumber = flat, pf_amountReceived = amt, pf_method = cash,
      pf_notes = []\<rparr>"

definition ex_state :: State where
  "ex_state = (initial ex_data ''2025-03-01'')\<lparr>paymentForm := ex_paymentForm ''A1'' (Finite 200)\<rparr>"

text \<open>A second customer record that carries the id of \<open>ex_customer\<close>, and a delivery to it.\<close>

definition ex_twin :: Customer where
  "ex_twin = ex_customer\<lparr>c_flatNumber := ''B2'', c_name := ''Bilal''\<rparr>"

definition ex_twin_delivery :: Delivery where
  "ex_twin_delivery = ex_delivery\<lparr>d_flatNumber := ''B2'', d_customerName := ''Bilal''\<rparr>"

definition ex_twin_state :: State where
  "ex_twin_state =
     initial (ex_data\<lparr>customers := [ex_customer, ex_twin],
                      deliveries := [ex_delivery, ex_twin_delivery]\<rparr>) ''2025-03-01''"

text \<open>
  A new business: a customer is added and pays 100 before any delivery is recorded.
\<close>

definition ex_prepaid_run :: "(Env \<times> Action) list" where
  "ex_prepaid_run =
     [(ex_env, SetCustomerForm \<lparr>cf_flatNumber = ''A1'', cf_name = ''Ali'', cf_phone = [],
                                 cf_rate = Finite 30\<rparr>),
      (ex_env, AddCustomer),
      (ex_env, SetPaymentForm (ex_paymentForm ''A1'' (Finite 100))),
      (ex_env, AddPayment)]"

definition empty_data :: AppData where
  "empty_data = \<lparr>customers = [], deliveries = [], payments = [], expenses = [], lastSaved = []\<rparr>"

text \<open>
  The state and the payment record that \<open>addPayment\<close> leaves behind in the scenario.
\<close>

definition ex_new_payment :: Payment where
  "ex_new_payment = \<lparr>p_id = ''pay_1740823200000'', p_date = ''2025-03-01'', p_flatNumber = ''A1'',
                      p_customerName = ''Ali'', p_totalBill = Finite 200, p_amountReceived = Finite 200,
                      p_remainingBalance = Finite 0, p_paymentMethod = cash, p_status = full,
                      p_notes = [], p_createdAt = ''2025-03-01T10:00:00.000Z''\<rparr>"

definition ex_paid_state :: State where
  "ex_paid_state =
     (initial (ex_data\<lparr>payments := [ex_payment, ex_new_payment],
                       lastSaved := ''2025-03-01T10:00:00.000Z''\<rparr>) ''2025-03-01'')
       \<lparr>alerts := [''Payment recorded!'']\<rparr>"

section \<open>A ledger with fractional amounts\<close>

text \<open>
  Flat F1 was billed 1 and paid 0.2 and 0.5; flat G1 was billed 1 and paid 0.1, 0.2 and
  0.7. A decimal fraction entered in a form is the nearest binary64 value. The other
  fields of the records are those of the worked ledger.
\<close>

definition ex_bill :: "string \<Rightarrow> number \<Rightarrow> Delivery" where
  "ex_bill flat amt = ex_delivery\<lparr>d_flatNumber := flat, d_amount := amt\<rparr>"

definition ex_paid :: "string \<Rightarrow> number \<Rightarrow> Payment" where
  "ex_paid flat amt = ex_payment\<lparr>p_flatNumber := flat, p_amountReceived := amt\<rparr>"

definition ex_spent :: "number \<Rightarrow> Expense" where
  "ex_spent amt = ex_expense\<lparr>e_amount := amt\<rparr>"

definition ex_frac_deliveries :: "Delivery list" where
  "ex_frac_deliveries = [ex_bill ''F1'' (Finite 1), ex_bill ''G1'' (Finite 1)]"

definition ex_frac_payments :: "Payment list" where
  "ex_frac_payments =
     [ex_paid ''F1'' (round64 (1 / 5)), ex_paid ''F1'' (Finite (1 / 2)),
      ex_paid ''G1'' (round64 (1 / 10)), ex_paid ''G1'' (round64 (1 / 5)),
      ex_paid ''G1'' (round64 (7 / 10))]"

text \<open>The binary64 value that is written \<open>1e308\<close>.\<close>

definition ex_1e308 :: rat where
  "ex_1e308 = 100000000000000001097906362944045541740492309677311846336810682903157585404911491537163328978494688899061249669721172515611590283743140088328307009198146046031271664502933027185697489699588559043338384466165001178426897626212945177628091195786707458122783970171784415105291802893207873272974885715430223118336"

text \<open>Flat F1 now pays 0.3.\<close>

definition ex_frac_customer :: Customer where
  "ex_frac_customer = ex_customer\<lparr>c_id := ''cust_1737000000001'', c_flatNumber := ''F1'',
                                   c_rate := Finite 1\<rparr>"

definition ex_frac_data :: AppData where
  "ex_frac_data = \<lparr>customers = [ex_frac_customer], deliveries = ex_frac_deliveries,
                    payments = ex_frac_payments, expenses = [],
                    lastSaved = ''2025-02-15T06:13:20.000Z''\<rparr>"

definition ex_frac_state :: State where
  "ex_frac_state =
     (initial ex_frac_data ''2025-03-01'')\<lparr>paymentForm := ex_paymentForm ''F1'' (round64 (3 / 10))\<rparr>"

definition ex_frac_new_payment :: Payment where
  "ex_frac_new_payment =
     \<lparr>p_id = ''pay_1740823200000'', p_date = ''2025-03-01'', p_flatNumber = ''F1'',
      p_customerName = ''Ali'', p_totalBill = Finite (1351079888211149 / 4503599627370496),
      p_amountReceived = Finite (5404319552844595 / 18014398509481984),
      p_remainingBalance = Finite (1 / 18014398509481984), p_paymentMethod = cash,
      p_status = partial, p_notes = [], p_createdAt = ''2025-03-01T10:00:00.000Z''\<rparr>"

definition ex_frac_paid_state :: State where
  "ex_frac_paid_state =
     (initial (ex_frac_data\<lparr>payments := ex_frac_payments @ [ex_frac_new_payment],
                            lastSaved := ''2025-03-01T10:00:00.000Z''\<rparr>) ''2025-03-01'')
       \<lparr>alerts := [''Payment recorded!'']\<rparr>"

section \<open>Statements about the handlers\<close>

text \<open>
  \<open>writes env blob\<close>: a handler's save goes through, that is, a user is signed in and
  the storage medium accepts the blob under the user's key.
\<close>

definition writes :: "Env \<Rightarrow> AppData \<Rightarrow> bool" where
  "writes env blob =
     (case userId env of
        None \<Rightarrow> False
      | Some uid \<Rightarrow> uid \<noteq> [] \<and> setItem env (''crm_'' @ uid) blob = Inr ())"

section \<open>Rounding\<close>

lemma ilog2_lower:
  assumes "0 < a"
  shows "2 powi ilog2 a \<le> a"
proof (cases "1 \<le> a")
  case True
  define n where "n = nat \<lfloor>a\<rfloor>"
  define L where "L = floorlog 2 n"
  have n: "0 < n" using True by (simp add: n_def)
  from floorlog_bounds [of n 2] n have b: "2 ^ (L - 1) \<le> n"
    by (simp add: L_def)
  have L: "0 < L" using n by (simp add: L_def floorlog_def)
  have "ilog2 a = int (L - 1)"
    using True L by (simp add: ilog2_def n_def L_def)
  then have "2 powi ilog2 a = (2::rat) ^ (L - 1)" by simp
  also have "\<dots> = of_nat (2 ^ (L - 1))" by simp
  also have "\<dots> \<le> of_nat n" using b by (simp only: of_nat_le_iff)
  also have "\<dots> = of_int \<lfloor>a\<rfloor>" using True by (simp add: n_def)
  also have "\<dots> \<le> a" by simp
  finally show ?thesis .
next
  case False
  define x where "x = 1 / a"
  define m where "m = nat (\<lceil>x\<rceil> - 1)"
  define L where "L = floorlog 2 m"
  have x: "1 < x" using False assms by (simp add: x_def)
  then have c: "2 \<le> \<lceil>x\<rceil>" by linarith
  then have m: "0 < m" by (simp add: m_def)
  from floorlog_bounds [of m 2] m have b: "m < 2 ^ L"
    by (simp add: L_def)
  have "ilog2 a = - int L"
    using False by (simp add: ilog2_def m_def L_def x_def)
  then have eq: "2 powi ilog2 a = 1 / (2::rat) ^ L"
    by (simp add: power_int_minus field_simps)
  have "x \<le> of_int \<lceil>x\<rceil>" by simp
  also have "\<dots> = of_nat (m + 1)" using c by (simp add: m_def)
  also have "\<dots> \<le> of_nat (2 ^ L)" using b unfolding of_nat_le_iff by simp
  finally have "x \<le> 2 ^ L" by simp
  then have "1 / 2 ^ L \<le> a"
    using assms by (simp add: x_def field_simps)
  with eq show ?thesis by simp
qed

lemma ilog2_upper:
  assumes "0 < a"
  shows "a < 2 powi (ilog2 a + 1)"
proof (cases "1 \<le> a")
  case True
  define n where "n = nat \<lfloor>a\<rfloor>"
  define L where "L = floorlog 2 n"
  have n: "0 < n" using True by (simp add: n_def)
  from floorlog_bounds [of n 2] n have b: "n < 2 ^ L"
    by (simp add: L_def)
  have "ilog2 a + 1 = int L"
    using True by (simp add: ilog2_def n_def L_def)
  then have eq: "2 powi (ilog2 a + 1) = (2::rat) ^ L" by simp
  have "a < of_int \<lfloor>a\<rfloor> + 1" by linarith
  also have "\<dots> = of_nat (n + 1)" using True by (simp add: n_def)
  also have "\<dots> \<le> of_nat (2 ^ L)" using b unfolding of_nat_le_iff by simp
  finally show ?thesis using eq by simp
next
  case False
  define x where "x = 1 / a"
  define m where "m = nat (\<lceil>x\<rceil> - 1)"
  define L where "L = floorlog 2 m"
  have x: "1 < x" using False assms by (simp add: x_def)
  then have c: "2 \<le> \<lceil>x\<rceil>" by linarith
  then have m: "0 < m" by (simp add: m_def)
  from floorlog_bounds [of m 2] m have b: "2 ^ (L - 1) \<le> m"
    by (simp add: L_def)
  have L: "0 < L" using m by (simp add: L_def floorlog_def)
  have "ilog2 a + 1 = - int (L - 1)"
    using False L by (simp add: ilog2_def m_def L_def x_def)
  then have eq: "2 powi (ilog2 a + 1) = 1 / (2::rat) ^ (L - 1)"
    by (simp add: power_int_minus field_simps)
  have "(2::rat) ^ (L - 1) = of_nat (2 ^ (L - 1))" by simp
  also have "\<dots> \<le> of_nat m" using b by (simp only: of_nat_le_iff)
  also have "\<dots> = of_int \<lceil>x\<rceil> - 1" using c by (simp add: m_def)
  also have "\<dots> < x" by linarith
  finally have "2 ^ (L - 1) < x" .
  then have "a < 1 / 2 ^ (L - 1)"
    using assms by (simp add: x_def field_simps)
  with eq show ?thesis by simp
qed

lemma ilog2_unique:
  assumes "2 powi e \<le> a" and "a < 2 powi (e + 1)"
  shows "ilog2 a = e"
proof -
  have pos: "0 < a"
    using assms(1) zero_less_power_int [of "2::rat" e] by linarith
  note lo = ilog2_lower [OF pos] and hi = ilog2_upper [OF pos]
  have "\<not> ilog2 a < e"
  proof
    assume "ilog2 a < e"
    then have "(2::rat) powi (ilog2 a + 1) \<le> 2 powi e"
      by (intro power_int_increasing) auto
    with hi assms(1) show False by linarith
  qed
  moreover have "\<not> e < ilog2 a"
  proof
    assume "e < ilog2 a"
    then have "(2::rat) powi (e + 1) \<le> 2 powi ilog2 a"
      by (intro power_int_increasing) auto
    with lo assms(2) show False by linarith
  qed
  ultimately show ?thesis by linarith
qed

lemma roundTiesToEven_eqI:
  assumes "2 * \<bar>m - of_int n\<bar> < 1 \<or> (2 * \<bar>m - of_int n\<bar> = 1 \<and> even n)"
  shows "roundTiesToEven m = n"
proof -
  define f where "f = \<lfloor>m\<rfloor>"
  define d where "d = m - of_int f"
  have d: "0 \<le> d" "d < 1" by (simp_all add: d_def f_def) linarith
  have m: "m = of_int f + d" by (simp add: d_def)
  have rte: "roundTiesToEven m =
               (if d < 1 / 2 then f else if d > 1 / 2 then f + 1 else if even f then f else f + 1)"
    by (simp add: roundTiesToEven_def Let_def d_def f_def)
  from assms show ?thesis
  proof
    assume "2 * \<bar>m - of_int n\<bar> < 1"
    then have "\<bar>m - of_int n\<bar> < 1 / 2" by simp
    then have "m - of_int n < 1 / 2 \<and> - (m - of_int n) < 1 / 2"
      by (simp only: abs_less_iff)
    then have near: "- (1 / 2) < m - of_int n" "m - of_int n < 1 / 2"
      by linarith+
    consider "d < 1 / 2" | "1 / 2 < d" | "d = 1 / 2" by linarith
    then show ?thesis
    proof cases
      case 1
      from near m d 1 have "\<bar>rat_of_int f - of_int n\<bar> < 1"
        unfolding abs_less_iff by (intro conjI) linarith+
      then have "\<bar>rat_of_int (f - n)\<bar> < 1" by simp
      then have "\<bar>f - n\<bar> < 1" unfolding of_int_abs [symmetric] by (simp only: of_int_less_1_iff)
      then have "n = f" by linarith
      with 1 show ?thesis by (simp add: rte)
    next
      case 2
      from near m d 2 have "\<bar>rat_of_int f + 1 - of_int n\<bar> < 1"
        unfolding abs_less_iff by (intro conjI) linarith+
      then have "\<bar>rat_of_int (f + 1 - n)\<bar> < 1" by simp
      then have "\<bar>f + 1 - n\<bar> < 1" unfolding of_int_abs [symmetric] by (simp only: of_int_less_1_iff)
      then have "n = f + 1" by linarith
      with 2 show ?thesis by (simp add: rte)
    next
      case 3
      from near m 3 have "\<bar>2 * rat_of_int f - 2 * of_int n + 1\<bar> < 1"
        unfolding abs_less_iff by (intro conjI) linarith+
      then have "\<bar>rat_of_int (2 * (f - n) + 1)\<bar> < 1" by (simp add: algebra_simps)
      then have "\<bar>2 * (f - n) + 1\<bar> < 1" unfolding of_int_abs [symmetric] by (simp only: of_int_less_1_iff)
      then show ?thesis by presburger
    qed
  next
    assume tie: "2 * \<bar>m - of_int n\<bar> = 1 \<and> even n"
    then have "\<bar>m - of_int n\<bar> = 1 / 2" by simp
    then have "m - of_int n = 1 / 2 \<or> m - of_int n = - (1 / 2)"
      by (simp only: abs_if split: if_splits) simp_all
    then have "m = of_int n + 1 / 2 \<or> m = of_int n - 1 / 2" by auto
    then show ?thesis
    proof
      assume e: "m = of_int n + 1 / 2"
      then have "\<lfloor>m\<rfloor> = n" by linarith
      with e tie show ?thesis by (simp add: roundTiesToEven_def Let_def)
    next
      assume e: "m = of_int n - 1 / 2"
      then have "\<lfloor>m\<rfloor> = n - 1" by linarith
      with e tie show ?thesis by (simp add: roundTiesToEven_def Let_def)
    qed
  qed
qed

lemma roundTiesToEven_of_int: "roundTiesToEven (of_int n) = n"
  by (rule roundTiesToEven_eqI) simp

lemma round64_pos:
  assumes "0 < q"
  shows "round64 q =
           (let e = max (ilog2 q) (- 1022); u = 2 powi (e - 52);
                r = of_int (roundTiesToEven (q / u)) * u
            in if 2 powi 1024 \<le> r then PosInfinity else Finite r)"
  using assms by (simp add: round64_def Let_def)

lemma round64_minus: "round64 (- q) = js_uminus (round64 q)"
  by (simp add: round64_def Let_def)

lemma round64_eqI:
  assumes "2 powi e \<le> q" and "q < 2 powi (e + 1)" and "- 1022 \<le> e"
    and "2 * \<bar>q / 2 powi (e - 52) - of_int n\<bar> < 1
         \<or> (2 * \<bar>q / 2 powi (e - 52) - of_int n\<bar> = 1 \<and> even n)"
    and "of_int n * 2 powi (e - 52) < (2::rat) powi 1024"
  shows "round64 q = Finite (of_int n * 2 powi (e - 52))"
proof -
  have pos: "0 < q"
    using assms(1) zero_less_power_int [of "2::rat" e] by linarith
  have e: "max (ilog2 q) (- 1022) = e"
    using ilog2_unique [OF assms(1,2)] assms(3) by simp
  have r: "roundTiesToEven (q / 2 powi (e - 52)) = n"
    using assms(4) by (rule roundTiesToEven_eqI)
  show ?thesis
    using assms(5) by (simp add: round64_pos [OF pos] e r Let_def)
qed

lemma round64_exact:
  assumes "0 < n" and "n < 2 ^ 53" and "- 1074 \<le> k"
    and "of_int n * 2 powi k < (2::rat) powi 1024"
  shows "round64 (of_int n * 2 powi k) = Finite (of_int n * 2 powi k)"
proof -
  define q :: rat where "q = of_int n * 2 powi k"
  define e where "e = max (ilog2 q) (- 1022)"
  have pos: "0 < q" using assms(1) by (simp add: q_def)
  have "q < 2 ^ 53 * 2 powi k"
    using assms(2) by (simp add: q_def)
  also have "\<dots> = 2 powi (53 + k)"
    by (simp add: power_int_add)
  finally have up: "q < 2 powi (53 + k)" .
  have "ilog2 q < 53 + k"
  proof (rule ccontr)
    assume "\<not> ilog2 q < 53 + k"
    then have "(2::rat) powi (53 + k) \<le> 2 powi ilog2 q"
      by (intro power_int_increasing) auto
    with ilog2_lower [OF pos] up show False by linarith
  qed
  with assms(3) have le: "e - 52 \<le> k" by (simp add: e_def)
  define j where "j = nat (k - (e - 52))"
  have k: "k = (e - 52) + int j" using le by (simp add: j_def)
  have pk: "(2::rat) powi k = 2 ^ j * 2 powi (e - 52)"
    by (subst k) (simp add: power_int_add)
  have quot: "q / 2 powi (e - 52) = of_int (n * 2 ^ j)"
    by (simp add: q_def pk)
  have undo: "of_int (n * 2 ^ j) * 2 powi (e - 52) = q"
    by (simp add: q_def pk)
  show ?thesis
    using assms(4) unfolding q_def [symmetric]
    by (simp add: round64_pos [OF pos] e_def [symmetric] quot roundTiesToEven_of_int undo Let_def
        del: of_int_mult of_int_power)
qed

lemma round64_overflow:
  assumes "2 powi 1024 \<le> q"
  shows "round64 q = PosInfinity"
proof -
  have pos: "0 < q"
    using assms zero_less_power_int [of "2::rat" 1024] by linarith
  define e where "e = max (ilog2 q) (- 1022)"
  define u :: rat where "u = 2 powi (e - 52)"
  have u: "0 < u" by (simp add: u_def)
  have "1024 \<le> ilog2 q"
  proof (rule ccontr)
    assume "\<not> 1024 \<le> ilog2 q"
    then have "(2::rat) powi (ilog2 q + 1) \<le> 2 powi 1024"
      by (intro power_int_increasing) auto
    with ilog2_upper [OF pos] assms show False by linarith
  qed
  then have e: "e = ilog2 q" "1024 \<le> e" by (simp_all add: e_def)
  have "(2::rat) powi e \<le> q" using ilog2_lower [OF pos] e by simp
  then have "2 powi e / u \<le> q / u" using u by (simp add: divide_right_mono)
  moreover have "2 powi e / u = (2::rat) ^ 52"
    by (simp add: u_def power_int_diff [symmetric])
  ultimately have "of_int (2 ^ 52) \<le> q / u" by simp
  then have "2 ^ 52 \<le> \<lfloor>q / u\<rfloor>" by (simp only: le_floor_iff)
  moreover have "\<lfloor>q / u\<rfloor> \<le> roundTiesToEven (q / u)"
    by (simp add: roundTiesToEven_def Let_def)
  ultimately have "(2::int) ^ 52 \<le> roundTiesToEven (q / u)" by linarith
  then have "rat_of_int (2 ^ 52) \<le> of_int (roundTiesToEven (q / u))"
    by (simp only: of_int_le_iff)
  then have "2 ^ 52 * u \<le> of_int (roundTiesToEven (q / u)) * u"
    using u by (simp add: mult_right_mono)
  moreover have "2 ^ 52 * u = (2::rat) powi e"
    by (simp add: u_def power_int_diff field_simps)
  moreover have "(2::rat) powi 1024 \<le> 2 powi e"
    using e by (intro power_int_increasing) auto
  ultimately have "2 powi 1024 \<le> of_int (roundTiesToEven (q / u)) * u" by linarith
  then show ?thesis
    by (simp add: round64_pos [OF pos] e_def [symmetric] u_def [symmetric] Let_def)
qed


lemma round64_cert:
  assumes "2 powi e \<le> q" and "q < 2 powi (e + 1)" and "- 1022 \<le> e"
    and "r = of_int n * 2 powi (e - 52)"
    and "2 * \<bar>q - r\<bar> < 2 powi (e - 52) \<or> (2 * \<bar>q - r\<bar> = 2 powi (e - 52) \<and> even n)"
    and "r < 2 powi 1024"
  shows "round64 q = Finite r"
proof -
  define u :: rat where "u = 2 powi (e - 52)"
  have u: "0 < u" by (simp add: u_def)
  have "q / u - of_int n = (q - r) / u"
    using u by (simp add: assms(4) u_def [symmetric] field_simps)
  then have "2 * \<bar>q / u - of_int n\<bar> = 2 * \<bar>q - r\<bar> / u"
    using u by (simp add: abs_divide)
  with assms(5) u
  have "2 * \<bar>q / u - of_int n\<bar> < 1 \<or> (2 * \<bar>q / u - of_int n\<bar> = 1 \<and> even n)"
    by (auto simp: u_def [symmetric] field_simps)
  from round64_eqI [OF assms(1,2,3) this [unfolded u_def]] assms(4,6)
  show ?thesis by simp
qed

lemma round64_zero: "round64 0 = Finite 0"
  by (simp add: round64_def)

lemma round64_of_int:
  assumes "\<bar>n\<bar> < 2 ^ 53"
  shows "round64 (of_int n) = Finite (of_int n)"
proof -
  have big: "(2::rat) ^ 53 < 2 powi 1024" by simp
  have pos: "round64 (of_int k) = Finite (of_int k)" if "0 < k" "k < 2 ^ 53" for k
  proof -
    have "rat_of_int k < of_int (2 ^ 53)" using that(2) by (simp only: of_int_less_iff)
    then have "of_int k * 2 powi 0 < (2::rat) powi 1024" using big by simp
    from round64_exact [OF that(1,2) _ this] show ?thesis by simp
  qed
  consider "n = 0" | "0 < n" | "n < 0" by linarith
  then show ?thesis
  proof cases
    case 1
    then show ?thesis by (simp add: round64_zero)
  next
    case 2
    with assms show ?thesis by (intro pos) simp_all
  next
    case 3
    with assms have "round64 (of_int (- n)) = Finite (of_int (- n))" by (intro pos) simp_all
    then have "round64 (- of_int n) = Finite (- of_int n)" by simp
    then show ?thesis by (cases "round64 (of_int n)") (simp_all add: round64_minus)
  qed
qed

lemma round64_numeral:
  assumes "numeral w < (9007199254740992 :: int)"
  shows "round64 (numeral w) = Finite (numeral w)"
  using round64_of_int [of "numeral w"] assms by simp

lemma round64_neg_numeral:
  assumes "numeral w < (9007199254740992 :: int)"
  shows "round64 (- numeral w) = Finite (- numeral w)"
  using round64_of_int [of "- numeral w"] assms by simp

lemma round64_one: "round64 1 = Finite 1"
  using round64_of_int [of 1] by simp

lemma round64_not_NaN: "round64 q \<noteq> NaN"
  by (simp add: round64_def Let_def)

lemmas js_eval = round64_zero round64_one round64_numeral round64_neg_numeral
  js_minus_def js_gt_def js_ge_def js_le_def


section \<open>Comparisons and sums\<close>

lemma js_gt_not_le: "js_gt x (Finite 0) \<Longrightarrow> \<not> js_le x (Finite 0)"
  by (cases x) (simp_all add: js_gt_def js_le_def)

lemma js_pending:
  "js_gt a (Finite 0) \<Longrightarrow> js_le b (Finite 0) \<Longrightarrow> \<not> js_lt a b \<and> \<not> js_gt b (Finite 0)"
  by (cases a; cases b) (auto simp: js_gt_def js_le_def)

lemma js_floor_max:
  "x \<noteq> NaN \<Longrightarrow> (if js_gt x (Finite 0) then x else Finite 0) = js_max x (Finite 0)"
  by (cases x) (auto simp: js_gt_def js_max_def)

lemma js_minus_NaN_iff:
  "js_minus x y = NaN \<longleftrightarrow>
     x = NaN \<or> y = NaN \<or> (x = PosInfinity \<and> y = PosInfinity) \<or> (x = NegInfinity \<and> y = NegInfinity)"
  by (cases x; cases y) (simp_all add: js_minus_def round64_not_NaN)

lemma foldl_js_sum:
  "foldl (\<lambda>sum x. js_plus sum (f x)) (Finite 0) xs = js_sum (map f xs)"
  by (simp add: js_sum_def foldl_map)

text \<open>Whole, non-negative amounts whose total stays below \<open>2 ^ 53\<close> add up exactly.\<close>

lemma foldl_js_plus_whole:
  assumes "0 \<le> a" and "\<forall>k \<in> set ks. 0 \<le> k" and "a + sum_list ks < 2 ^ 53"
  shows "foldl js_plus (Finite (of_int a)) (map (\<lambda>k. Finite (of_int k)) ks)
           = Finite (of_int (a + sum_list ks))"
  using assms
proof (induction ks arbitrary: a)
  case Nil
  then show ?case by simp
next
  case (Cons k ks)
  have rest: "0 \<le> sum_list ks"
    using Cons.prems(2) by (intro sum_list_nonneg) simp
  have "\<bar>a + k\<bar> < 2 ^ 53"
    using Cons.prems rest by simp
  then have step: "js_plus (Finite (of_int a)) (Finite (of_int k)) = Finite (of_int (a + k))"
    using round64_of_int [of "a + k"] by simp
  have "foldl js_plus (Finite (of_int (a + k))) (map (\<lambda>k. Finite (of_int k)) ks)
          = Finite (of_int (a + k + sum_list ks))"
    using Cons.prems by (intro Cons.IH) simp_all
  with step show ?case by (simp add: add.assoc)
qed

lemma js_sum_whole:
  assumes "\<forall>k \<in> set ks. 0 \<le> k" and "sum_list ks < 2 ^ 53"
  shows "js_sum (map (\<lambda>k. Finite (of_int k)) ks) = Finite (of_int (sum_list ks))"
  using foldl_js_plus_whole [of 0 ks] assms by (simp add: js_sum_def)

lemma js_minus_whole:
  assumes "0 \<le> a" "a < 2 ^ 53" "0 \<le> b" "b < 2 ^ 53"
  shows "js_minus (Finite (of_int a)) (Finite (of_int b)) = Finite (of_int (a - b))"
proof -
  have "\<bar>a - b\<bar> < 2 ^ 53" using assms by simp
  then show ?thesis
    using round64_of_int [of "a - b"] by (simp add: js_minus_def)
qed

section \<open>Rounding on the ledger with fractional amounts\<close>

text \<open>
  The decimal fractions 0.1, 0.2, 0.3 and 0.7 as binary64 values, and the sums and
  differences the ledger takes of them: \<open>0.2 + 0.5\<close> and \<open>0.1 + 0.2\<close> are ties, rounded to
  the even neighbour, and \<open>1 - (0.2 + 0.5)\<close> is \<open>0.30000000000000004\<close>.
\<close>

lemma round64_0_2: "round64 (1 / 5) = Finite (3602879701896397 / 18014398509481984)"
  by (rule round64_cert [where e = "-3" and n = 7205759403792794]) simp_all

lemma round64_0_1: "round64 (1 / 10) = Finite (3602879701896397 / 36028797018963968)"
  by (rule round64_cert [where e = "-4" and n = 7205759403792794]) simp_all

lemma round64_0_7: "round64 (7 / 10) = Finite (3152519739159347 / 4503599627370496)"
  by (rule round64_cert [where e = "-1" and n = 6305039478318694]) simp_all

lemma round64_0_3: "round64 (3 / 10) = Finite (5404319552844595 / 18014398509481984)"
  by (rule round64_cert [where e = "-2" and n = 5404319552844595]) simp_all

lemma plus_0_0_2: "js_plus (Finite 0) (Finite (3602879701896397 / 18014398509481984)) = Finite (3602879701896397 / 18014398509481984)"
  unfolding js_plus.simps
  by (rule round64_cert [where e = "-3" and n = 7205759403792794]) simp_all

lemma plus_0_2_0_5: "js_plus (Finite (3602879701896397 / 18014398509481984)) (Finite (1 / 2)) = Finite (3152519739159347 / 4503599627370496)"
  unfolding js_plus.simps
  by (rule round64_cert [where e = "-1" and n = 6305039478318694]) simp_all

lemma minus_1_0_7: "js_minus (Finite 1) (Finite (3152519739159347 / 4503599627370496)) = Finite (1351079888211149 / 4503599627370496)"
  unfolding js_minus_def js_uminus.simps js_plus.simps
  by (rule round64_cert [where e = "-2" and n = 5404319552844596]) simp_all

lemma plus_0_0_1: "js_plus (Finite 0) (Finite (3602879701896397 / 36028797018963968)) = Finite (3602879701896397 / 36028797018963968)"
  unfolding js_plus.simps
  by (rule round64_cert [where e = "-4" and n = 7205759403792794]) simp_all

lemma plus_0_1_0_2: "js_plus (Finite (3602879701896397 / 36028797018963968)) (Finite (3602879701896397 / 18014398509481984)) = Finite (1351079888211149 / 4503599627370496)"
  unfolding js_plus.simps
  by (rule round64_cert [where e = "-2" and n = 5404319552844596]) simp_all

lemma plus_0_3_0_7: "js_plus (Finite (1351079888211149 / 4503599627370496)) (Finite (3152519739159347 / 4503599627370496)) = Finite 1"
  unfolding js_plus.simps
  by (rule round64_cert [where e = "0" and n = 4503599627370496]) simp_all

lemma minus_0_3_0_3: "js_minus (Finite (1351079888211149 / 4503599627370496)) (Finite (5404319552844595 / 18014398509481984)) = Finite (1 / 18014398509481984)"
  unfolding js_minus_def js_uminus.simps js_plus.simps
  by (rule round64_cert [where e = "-54" and n = 4503599627370496]) simp_all

lemma plus_0_1e308: "js_plus (Finite 0) (Finite ex_1e308) = Finite ex_1e308"
proof -
  have "ex_1e308 = of_int 5010420900022432 * 2 powi 971"
    by (simp add: ex_1e308_def)
  moreover have "round64 (of_int 5010420900022432 * 2 powi 971) = Finite (of_int 5010420900022432 * 2 powi 971)"
    by (rule round64_exact) simp_all
  ultimately show ?thesis by simp
qed

lemma plus_1e308_1e308: "js_plus (Finite ex_1e308) (Finite ex_1e308) = PosInfinity"
  unfolding js_plus.simps by (rule round64_overflow) (simp add: ex_1e308_def)

lemma plus_0_1: "js_plus (Finite 0) (Finite 1) = Finite 1"
  by (simp add: js_eval)

lemma minus_1_1: "js_minus (Finite 1) (Finite 1) = Finite 0"
  by (simp add: js_eval)

section \<open>Outstanding balance\<close>

text \<open>
  C1. For every flat number \<open>f\<close> and all deliveries and payments,
  \<open>getCustomerOutstanding f\<close> is the total of \<open>amount\<close> over the deliveries of \<open>f\<close> minus
  the total of \<open>amountReceived\<close> over the payments of \<open>f\<close>, each total taken in the order
  of the collection, in binary64 arithmetic. When the amounts are whole and non-negative
  and both totals stay below \<open>2 ^ 53\<close>, this is the exact difference of the exact sums.
  Nothing floors the result at zero: some ledgers give a negative balance.
\<close>

theorem getCustomerOutstanding_sum:
  "getCustomerOutstanding f ds ps
     = js_minus (js_sum (map d_amount (filter (\<lambda>d. d_flatNumber d = f) ds)))
         (js_sum (map p_amountReceived (filter (\<lambda>p. p_flatNumber p = f) ps)))
   \<and> (map d_amount (filter (\<lambda>d. d_flatNumber d = f) ds) = map (\<lambda>k. Finite (of_int k)) bills
        \<and> map p_amountReceived (filter (\<lambda>p. p_flatNumber p = f) ps)
            = map (\<lambda>k. Finite (of_int k)) receipts
        \<and> (\<forall>k \<in> set bills. 0 \<le> k) \<and> (\<forall>k \<in> set receipts. 0 \<le> k)
        \<and> sum_list bills < 2 ^ 53 \<and> sum_list receipts < 2 ^ 53
      \<longrightarrow> getCustomerOutstanding f ds ps = Finite (of_int (sum_list bills - sum_list receipts)))
   \<and> (\<exists>ds' ps'. js_lt (getCustomerOutstanding f ds' ps') (Finite 0))"
proof (intro conjI impI)
  show eq: "getCustomerOutstanding f ds ps
     = js_minus (js_sum (map d_amount (filter (\<lambda>d. d_flatNumber d = f) ds)))
         (js_sum (map p_amountReceived (filter (\<lambda>p. p_flatNumber p = f) ps)))" for ds ps
    by (simp add: getCustomerOutstanding_def foldl_js_sum)
  {
    assume a: "map d_amount (filter (\<lambda>d. d_flatNumber d = f) ds) = map (\<lambda>k. Finite (of_int k)) bills
        \<and> map p_amountReceived (filter (\<lambda>p. p_flatNumber p = f) ps)
            = map (\<lambda>k. Finite (of_int k)) receipts
        \<and> (\<forall>k \<in> set bills. 0 \<le> k) \<and> (\<forall>k \<in> set receipts. 0 \<le> k)
        \<and> sum_list bills < 2 ^ 53 \<and> sum_list receipts < 2 ^ 53"
    then have "0 \<le> sum_list bills" "0 \<le> sum_list receipts"
      by (auto intro: sum_list_nonneg)
    with a show "getCustomerOutstanding f ds ps = Finite (of_int (sum_list bills - sum_list receipts))"
      by (simp add: eq js_sum_whole js_minus_whole)
  }
  have "getCustomerOutstanding f [] [ex_paid f (Finite 50)] = Finite (- 50)"
    by (simp add: getCustomerOutstanding_def ex_paid_def js_eval)
  then have "js_lt (getCustomerOutstanding f [] [ex_paid f (Finite 50)]) (Finite 0)"
    by simp
  then show "\<exists>ds' ps'. js_lt (getCustomerOutstanding f ds' ps') (Finite 0)"
    by blast
qed

lemma ex_frac_F1:
  "getCustomerOutstanding ''F1'' ex_frac_deliveries ex_frac_payments
     = Finite (1351079888211149 / 4503599627370496)"
  by (simp add: getCustomerOutstanding_def ex_frac_deliveries_def ex_frac_payments_def
      ex_bill_def ex_paid_def round64_0_2 round64_0_1 round64_0_7 round64_one
      plus_0_1 plus_0_0_2 plus_0_2_0_5 minus_1_0_7 del: js_plus.simps)

lemma ex_frac_G1:
  "getCustomerOutstanding ''G1'' ex_frac_deliveries ex_frac_payments = Finite 0"
  by (simp add: getCustomerOutstanding_def ex_frac_deliveries_def ex_frac_payments_def
      ex_bill_def ex_paid_def round64_0_2 round64_0_1 round64_0_7
      plus_0_1 plus_0_0_1 plus_0_1_0_2 plus_0_3_0_7 minus_1_1 del: js_plus.simps)

text \<open>
  300 billed against 100 and 250 paid leaves \<open>-50\<close>; 1 billed against 0.2 and 0.5 paid
  leaves \<open>0.30000000000000004\<close>, which is not the binary64 value \<open>0.3\<close>.
\<close>

theorem getCustomerOutstanding_sum_witness:
  "getCustomerOutstanding ''A1'' [ex_delivery] [ex_payment, ex_paid ''A1'' (Finite 250)]
     = Finite (- 50)
   \<and> getCustomerOutstanding ''F1'' ex_frac_deliveries ex_frac_payments
     = Finite (1351079888211149 / 4503599627370496)
   \<and> round64 (3 / 10) = Finite (5404319552844595 / 18014398509481984)"
proof -
  let ?ps = "[ex_payment, ex_paid ''A1'' (Finite 250)]"
  have "map d_amount (filter (\<lambda>d. d_flatNumber d = ''A1'') [ex_delivery])
          = map (\<lambda>k. Finite (of_int k)) [300]
        \<and> map p_amountReceived (filter (\<lambda>p. p_flatNumber p = ''A1'') ?ps)
            = map (\<lambda>k. Finite (of_int k)) [100, 250]
        \<and> (\<forall>k \<in> set [300 :: int]. 0 \<le> k) \<and> (\<forall>k \<in> set [100, 250 :: int]. 0 \<le> k)
        \<and> sum_list [300 :: int] < 2 ^ 53 \<and> sum_list [100, 250 :: int] < 2 ^ 53"
    by (simp add: ex_delivery_def ex_payment_def ex_paid_def)
  with getCustomerOutstanding_sum [of "''A1''" "[ex_delivery]" ?ps "[300]" "[100, 250]"]
  have "getCustomerOutstanding ''A1'' [ex_delivery] ?ps
          = Finite (of_int (sum_list [300] - sum_list [100, 250]))"
    by blast
  with ex_frac_F1 round64_0_3 show ?thesis by simp
qed

section \<open>The handlers and the stored payments\<close>

text \<open>\<open>saveData\<close> catches whatever the write throws, so \<open>saveAndReload\<close> always returns.\<close>

lemma saveData_Inr:
  "saveData si t uid upd cur =
     Inr (case si (''crm_'' @ uid) (spread cur upd t) of Inr _ \<Rightarrow> spread cur upd t | Inl _ \<Rightarrow> cur)"
  by (simp add: saveData_def Let_def split: sum.splits)

lemma saveAndReload_Inr:
  "saveAndReload env upd st =
     Inr (if writes env (spread (data st) upd (isoNow env))
          then st\<lparr>data := spread (data st) upd (isoNow env)\<rparr> else st)"
  by (auto simp: saveAndReload_def saveData_Inr writes_def split: option.splits sum.splits)

lemmas save_simps = saveAndReload_Inr spread_def noUpdates_def alert_def Let_def

text \<open>What each handler does to the list of payments.\<close>

lemma addCustomer_payments:
  "addCustomer env s = Inr s' \<Longrightarrow> payments (data s') = payments (data s)"
  by (auto simp: addCustomer_def save_simps split: if_splits)

lemma deleteCustomer_payments:
  "deleteCustomer env i s = Inr s' \<Longrightarrow>
     payments (data s') = payments (data s)
     \<or> (\<exists>f. payments (data s') = filter (\<lambda>p. p_flatNumber p \<noteq> f) (payments (data s)))"
  by (auto simp: deleteCustomer_def save_simps split: if_splits option.splits)

lemma addDelivery_payments:
  "addDelivery env s = Inr s' \<Longrightarrow> payments (data s') = payments (data s)"
  by (auto simp: addDelivery_def save_simps split: if_splits option.splits)

lemma deleteDelivery_payments:
  "deleteDelivery env i s = Inr s' \<Longrightarrow> payments (data s') = payments (data s)"
  by (auto simp: deleteDelivery_def save_simps split: if_splits)

lemma addPayment_payments:
  "addPayment env s = Inr s' \<Longrightarrow>
     payments (data s') = payments (data s)
     \<or> (\<exists>q. payments (data s') = payments (data s) @ [q])"
  by (auto simp: addPayment_def save_simps split: if_splits option.splits)

lemma deletePayment_payments:
  "deletePayment env i s = Inr s' \<Longrightarrow>
     payments (data s') = payments (data s)
     \<or> payments (data s') = filter (\<lambda>p. p_id p \<noteq> i) (payments (data s))"
  by (auto simp: deletePayment_def save_simps split: if_splits)

lemma addExpense_payments:
  "addExpense env s = Inr s' \<Longrightarrow> payments (data s') = payments (data s)"
  by (auto simp: addExpense_def save_simps split: if_splits)

lemma deleteExpense_payments:
  "deleteExpense env i s = Inr s' \<Longrightarrow> payments (data s') = payments (data s)"
  by (auto simp: deleteExpense_def save_simps split: if_splits)

lemma same_is_filter: "ys = xs \<Longrightarrow> \<exists>P. ys = filter P xs"
  by (rule exI [of _ "\<lambda>_. True"]) simp

text \<open>
  No action rewrites a stored payment: the list afterwards is the list before with some
  records filtered out, or (for \<open>addPayment\<close> only) with one record appended.
\<close>

lemma step_payments:
  assumes "step env a s = Inr s'"
  shows "(\<exists>P. payments (data s') = filter P (payments (data s)))
         \<or> (a = AddPayment \<and> (\<exists>q. payments (data s') = payments (data s) @ [q]))"
proof (cases a)
  case AddCustomer
  with assms show ?thesis by (auto dest!: addCustomer_payments intro: same_is_filter)
next
  case (DeleteCustomer i)
  with assms have "payments (data s') = payments (data s)
     \<or> (\<exists>f. payments (data s') = filter (\<lambda>p. p_flatNumber p \<noteq> f) (payments (data s)))"
    by (simp add: deleteCustomer_payments)
  then show ?thesis by (blast intro: same_is_filter)
next
  case AddDelivery
  with assms show ?thesis by (auto dest!: addDelivery_payments intro: same_is_filter)
next
  case (DeleteDelivery i)
  with assms show ?thesis by (auto dest!: deleteDelivery_payments intro: same_is_filter)
next
  case AddPayment
  with assms have "payments (data s') = payments (data s)
     \<or> (\<exists>q. payments (data s') = payments (data s) @ [q])"
    by (simp add: addPayment_payments)
  with AddPayment show ?thesis by (blast intro: same_is_filter)
next
  case (DeletePayment i)
  with assms have "payments (data s') = payments (data s)
     \<or> payments (data s') = filter (\<lambda>p. p_id p \<noteq> i) (payments (data s))"
    by (simp add: deletePayment_payments)
  then show ?thesis by (blast intro: same_is_filter)
next
  case AddExpense
  with assms show ?thesis by (auto dest!: addExpense_payments intro: same_is_filter)
next
  case (DeleteExpense i)
  with assms show ?thesis by (auto dest!: deleteExpense_payments intro: same_is_filter)
next
  case (SetCustomerForm f)
  with assms show ?thesis by (auto intro: same_is_filter)
next
  case (SetDeliveryForm f)
  with assms show ?thesis by (auto intro: same_is_filter)
next
  case (SetPaymentForm f)
  with assms show ?thesis by (auto intro: same_is_filter)
next
  case (SetExpenseForm f)
  with assms show ?thesis by (auto intro: same_is_filter)
next
  case (SetShowModal m)
  with assms show ?thesis by (auto intro: same_is_filter)
qed

text \<open>The record that \<open>addPayment\<close> appends, when it appends one.\<close>

lemma addPayment_created:
  assumes "addPayment env st = Inr st'"
    and "payments (data st') \<noteq> payments (data st)"
  shows "\<exists>p. payments (data st') = payments (data st) @ [p]
           \<and> p_flatNumber p = pf_flatNumber (paymentForm st)
           \<and> p_amountReceived p = pf_amountReceived (paymentForm st)
           \<and> p_totalBill p = getCustomerOutstanding (pf_flatNumber (paymentForm st))
                                (deliveries (data st)) (payments (data st))
           \<and> p_remainingBalance p
               = (if js_gt (js_minus (p_totalBill p) (p_amountReceived p)) (Finite 0)
                  then js_minus (p_totalBill p) (p_amountReceived p) else Finite 0)
           \<and> p_status p = paymentStatus (p_amountReceived p) (p_totalBill p)"
  using assms
  by (auto simp: addPayment_def save_simps split: if_splits option.splits)

lemmas ex_defs = ex_env_def ex_state_def ex_paid_state_def initial_def ex_data_def
  ex_paymentForm_def ex_customer_def ex_delivery_def ex_payment_def ex_expense_def
  ex_new_payment_def

lemma addPayment_ex:
  "addPayment ex_env ex_state = Inr ex_paid_state"
  by (simp add: addPayment_def save_simps writes_def ex_defs getCustomerOutstanding_def
      paymentStatus_def getTodayString_def decimal.simps js_eval)

text \<open>
  On the ledger with fractional amounts, flat F1 owes \<open>0.30000000000000004\<close> and pays
  \<open>0.3\<close>: the payment is \<open>partial\<close> and leaves \<open>2 ^ - 54\<close>.
\<close>

lemma addPayment_ex_frac:
  "addPayment ex_env ex_frac_state = Inr ex_frac_paid_state"
  by (simp add: addPayment_def save_simps writes_def ex_env_def ex_frac_state_def
      ex_frac_paid_state_def initial_def ex_frac_data_def ex_paymentForm_def ex_frac_customer_def
      ex_customer_def ex_frac_new_payment_def ex_frac_F1 round64_0_3 minus_0_3_0_3
      paymentStatus_def js_gt_def js_ge_def js_le_def getTodayString_def decimal.simps
      del: js_plus.simps)

section \<open>Payment status\<close>

text \<open>
  C2. Let \<open>addPayment\<close> create a payment (the stored list of payments changes), with
  \<open>A\<close> the amount received in the form and \<open>B\<close> the customer's outstanding balance
  computed on the collections before the payment. Then exactly one record is appended,
  and its status is \<open>full\<close> if \<open>A >= B\<close> and \<open>B > 0\<close>, \<open>partial\<close> if \<open>0 < A < B\<close>, and
  \<open>pending\<close> otherwise, in particular whenever \<open>A > 0\<close> and \<open>B <= 0\<close>; the comparisons
  are those of the code on binary64 values. The status is not touched again: every
  action of the component leaves the stored payments as they are up to filtering
  records out or appending a new one.
\<close>

theorem addPayment_status:
  assumes "addPayment env st = Inr st'"
    and "payments (data st') \<noteq> payments (data st)"
    and "A = pf_amountReceived (paymentForm st)"
    and "B = getCustomerOutstanding (pf_flatNumber (paymentForm st))
               (deliveries (data st)) (payments (data st))"
  shows "(\<exists>p. payments (data st') = payments (data st) @ [p]
            \<and> p_amountReceived p = A
            \<and> p_status p = (if js_ge A B \<and> js_gt B (Finite 0) then full
                             else if js_gt A (Finite 0) \<and> js_lt A B then partial
                             else pending)
            \<and> (js_gt A (Finite 0) \<and> js_le B (Finite 0) \<longrightarrow> p_status p = pending))
       \<and> (step env' a s = Inr s' \<longrightarrow>
            (\<exists>P. payments (data s') = filter P (payments (data s)))
            \<or> (a = AddPayment \<and> (\<exists>q. payments (data s') = payments (data s) @ [q])))"
proof
  from addPayment_created [OF assms(1,2)] obtain p where
    p: "payments (data st') = payments (data st) @ [p]"
       "p_amountReceived p = A" "p_totalBill p = B"
       "p_status p = paymentStatus (p_amountReceived p) (p_totalBill p)"
    using assms(3,4) by auto
  have "p_status p = (if js_ge A B \<and> js_gt B (Finite 0) then full
                      else if js_gt A (Finite 0) \<and> js_lt A B then partial else pending)"
    using p by (simp add: paymentStatus_def)
  moreover have "js_gt A (Finite 0) \<and> js_le B (Finite 0) \<longrightarrow> p_status p = pending"
    using p js_pending [of A B] by (auto simp: paymentStatus_def)
  ultimately show "\<exists>p. payments (data st') = payments (data st) @ [p]
            \<and> p_amountReceived p = A
            \<and> p_status p = (if js_ge A B \<and> js_gt B (Finite 0) then full
                             else if js_gt A (Finite 0) \<and> js_lt A B then partial
                             else pending)
            \<and> (js_gt A (Finite 0) \<and> js_le B (Finite 0) \<longrightarrow> p_status p = pending)"
    using p by blast
next
  show "step env' a s = Inr s' \<longrightarrow>
            (\<exists>P. payments (data s') = filter P (payments (data s)))
            \<or> (a = AddPayment \<and> (\<exists>q. payments (data s') = payments (data s) @ [q]))"
    using step_payments by blast
qed

text \<open>
  On the worked ledger the outstanding balance is 200 and 200 is received: the new
  payment is \<open>full\<close>, and it survives the deletion of the earlier payment as it is. On
  the ledger with fractional amounts the payment of \<open>0.3\<close> is \<open>partial\<close>.
\<close>

theorem addPayment_status_witness:
  "addPayment ex_env ex_state = Inr ex_paid_state
   \<and> payments (data ex_paid_state) = payments (data ex_state) @ [ex_new_payment]
   \<and> p_status ex_new_payment = full
   \<and> step ex_env (DeletePayment ''pay_1739180000000'') ex_paid_state
       = Inr (ex_paid_state\<lparr>data := (data ex_paid_state)\<lparr>payments := [ex_new_payment]\<rparr>\<rparr>)
   \<and> (\<exists>P. [ex_new_payment] = filter P (payments (data ex_paid_state)))
   \<and> addPayment ex_env ex_frac_state = Inr ex_frac_paid_state
   \<and> payments (data ex_frac_paid_state) = payments (data ex_frac_state) @ [ex_frac_new_payment]
   \<and> p_status ex_frac_new_payment = partial"
proof -
  let ?s = "ex_paid_state\<lparr>data := (data ex_paid_state)\<lparr>payments := [ex_new_payment]\<rparr>\<rparr>"
  have h1: "addPayment ex_env ex_state = Inr ex_paid_state"
    by (rule addPayment_ex)
  have h2: "payments (data ex_paid_state) \<noteq> payments (data ex_state)"
    by (simp add: ex_defs)
  have h3: "Finite 200 = pf_amountReceived (paymentForm ex_state)"
    by (simp add: ex_defs)
  have h4: "Finite 200 = getCustomerOutstanding (pf_flatNumber (paymentForm ex_state))
               (deliveries (data ex_state)) (payments (data ex_state))"
    by (simp add: ex_defs getCustomerOutstanding_def js_eval)
  have h5: "step ex_env (DeletePayment ''pay_1739180000000'') ex_paid_state = Inr ?s"
    by (simp add: deletePayment_def save_simps writes_def ex_defs)
  have g1: "addPayment ex_env ex_frac_state = Inr ex_frac_paid_state"
    by (rule addPayment_ex_frac)
  have g2: "payments (data ex_frac_paid_state) \<noteq> payments (data ex_frac_state)"
    by (simp add: ex_frac_paid_state_def ex_frac_state_def initial_def ex_frac_data_def)
  have g5: "step ex_env (SetShowModal None) ex_frac_paid_state = Inr ex_frac_paid_state"
    by (simp add: ex_frac_paid_state_def initial_def)
  have "payments (data ?s) = [ex_new_payment]"
    by simp
  with addPayment_status [OF h1 h2 h3 h4, of ex_env "DeletePayment ''pay_1739180000000''"
      ex_paid_state ?s] h1 h5
    addPayment_status [OF g1 g2 refl refl, of ex_env "SetShowModal None" ex_frac_paid_state
      ex_frac_paid_state] g1 g5
  show ?thesis
    by (simp add: ex_defs ex_frac_paid_state_def ex_frac_state_def initial_def ex_frac_data_def
        ex_frac_new_payment_def)
qed

section \<open>Payment snapshot fields\<close>

text \<open>
  C3. Let \<open>addPayment\<close> create a payment, with \<open>A\<close> and \<open>B\<close> as above. The appended
  record stores \<open>totalBill = B\<close>, the outstanding balance at that moment, and as
  \<open>remainingBalance\<close> the difference \<open>B - A\<close> floored at zero: the difference when it is
  positive and 0 otherwise, which is \<open>Math.max(B - A, 0)\<close> whenever the difference is a
  number. Both are written once: every action of the component leaves the stored
  payments as they are up to filtering records out or appending a new one.
\<close>

theorem addPayment_snapshot:
  assumes "addPayment env st = Inr st'"
    and "payments (data st') \<noteq> payments (data st)"
    and "A = pf_amountReceived (paymentForm st)"
    and "B = getCustomerOutstanding (pf_flatNumber (paymentForm st))
               (deliveries (data st)) (payments (data st))"
  shows "(\<exists>p. payments (data st') = payments (data st) @ [p]
            \<and> p_totalBill p = B
            \<and> p_amountReceived p = A
            \<and> p_remainingBalance p
                = (if js_gt (js_minus B A) (Finite 0) then js_minus B A else Finite 0)
            \<and> (js_minus B A \<noteq> NaN \<longrightarrow> p_remainingBalance p = js_max (js_minus B A) (Finite 0)))
       \<and> (step env' a s = Inr s' \<longrightarrow>
            (\<exists>P. payments (data s') = filter P (payments (data s)))
            \<or> (a = AddPayment \<and> (\<exists>q. payments (data s') = payments (data s) @ [q])))"
proof
  from addPayment_created [OF assms(1,2)] obtain p where
    p: "payments (data st') = payments (data st) @ [p]"
       "p_amountReceived p = A" "p_totalBill p = B"
       "p_remainingBalance p
          = (if js_gt (js_minus B A) (Finite 0) then js_minus B A else Finite 0)"
    using assms(3,4) by auto
  moreover have "js_minus B A \<noteq> NaN \<longrightarrow> p_remainingBalance p = js_max (js_minus B A) (Finite 0)"
    using p(4) js_floor_max [of "js_minus B A"] by simp
  ultimately show "\<exists>p. payments (data st') = payments (data st) @ [p]
            \<and> p_totalBill p = B
            \<and> p_amountReceived p = A
            \<and> p_remainingBalance p
                = (if js_gt (js_minus B A) (Finite 0) then js_minus B A else Finite 0)
            \<and> (js_minus B A \<noteq> NaN \<longrightarrow> p_remainingBalance p = js_max (js_minus B A) (Finite 0))"
    by blast
next
  show "step env' a s = Inr s' \<longrightarrow>
            (\<exists>P. payments (data s') = filter P (payments (data s)))
            \<or> (a = AddPayment \<and> (\<exists>q. payments (data s') = payments (data s) @ [q]))"
    using step_payments by blast
qed

text \<open>
  On the worked ledger the snapshot is 200, 200 and 0, and deleting the delivery it was
  computed from leaves it in place. On the ledger with fractional amounts the snapshot
  is \<open>0.30000000000000004\<close>, \<open>0.3\<close> and \<open>2 ^ - 54\<close>.
\<close>

theorem addPayment_snapshot_witness:
  "addPayment ex_env ex_state = Inr ex_paid_state
   \<and> payments (data ex_paid_state) = payments (data ex_state) @ [ex_new_payment]
   \<and> p_totalBill ex_new_payment = Finite 200
   \<and> p_amountReceived ex_new_payment = Finite 200
   \<and> p_remainingBalance ex_new_payment = Finite 0
   \<and> step ex_env (DeleteDelivery ''del_1737360000000'') ex_paid_state
       = Inr (ex_paid_state\<lparr>data := (data ex_paid_state)\<lparr>deliveries := []\<rparr>\<rparr>)
   \<and> payments (data (ex_paid_state\<lparr>data := (data ex_paid_state)\<lparr>deliveries := []\<rparr>\<rparr>))
       = [ex_payment, ex_new_payment]
   \<and> addPayment ex_env ex_frac_state = Inr ex_frac_paid_state
   \<and> payments (data ex_frac_paid_state) = payments (data ex_frac_state) @ [ex_frac_new_payment]
   \<and> p_totalBill ex_frac_new_payment = Finite (1351079888211149 / 4503599627370496)
   \<and> p_amountReceived ex_frac_new_payment = Finite (5404319552844595 / 18014398509481984)
   \<and> p_remainingBalance ex_frac_new_payment = Finite (1 / 18014398509481984)"
proof -
  let ?s = "ex_paid_state\<lparr>data := (data ex_paid_state)\<lparr>deliveries := []\<rparr>\<rparr>"
  have h1: "addPayment ex_env ex_state = Inr ex_paid_state"
    by (rule addPayment_ex)
  have h2: "payments (data ex_paid_state) \<noteq> payments (data ex_state)"
    by (simp add: ex_defs)
  have h3: "Finite 200 = pf_amountReceived (paymentForm ex_state)"
    by (simp add: ex_defs)
  have h4: "Finite 200 = getCustomerOutstanding (pf_flatNumber (paymentForm ex_state))
               (deliveries (data ex_state)) (payments (data ex_state))"
    by (simp add: ex_defs getCustomerOutstanding_def js_eval)
  have h5: "step ex_env (DeleteDelivery ''del_1737360000000'') ex_paid_state = Inr ?s"
    by (simp add: deleteDelivery_def save_simps writes_def ex_defs)
  have g1: "addPayment ex_env ex_frac_state = Inr ex_frac_paid_state"
    by (rule addPayment_ex_frac)
  have g2: "payments (data ex_frac_paid_state) \<noteq> payments (data ex_frac_state)"
    by (simp add: ex_frac_paid_state_def ex_frac_state_def initial_def ex_frac_data_def)
  have g5: "step ex_env (SetShowModal None) ex_frac_paid_state = Inr ex_frac_paid_state"
    by (simp add: ex_frac_paid_state_def initial_def)
  from addPayment_snapshot [OF h1 h2 h3 h4, of ex_env "DeleteDelivery ''del_1737360000000''"
      ex_paid_state ?s] h1 h5
    addPayment_snapshot [OF g1 g2 refl refl, of ex_env "SetShowModal None" ex_frac_paid_state
      ex_frac_paid_state] g1 g5
  show ?thesis
    by (simp add: ex_defs ex_frac_paid_state_def ex_frac_state_def initial_def ex_frac_data_def
        ex_frac_new_payment_def)
qed

section \<open>Date-range statistics\<close>

lemma filter_none:
  assumes "\<forall>x \<in> set xs. \<not> P x"
  shows "filter P xs = []"
  using assms by (simp add: filter_empty_conv)

lemma js_minus_zero: "js_minus (Finite 0) (Finite 0) = Finite 0"
  by (simp add: js_eval)

lemma inf_minus_inf: "js_minus PosInfinity PosInfinity = NaN"
  by (simp add: js_minus_def)

text \<open>
  C4, as stated, fails where it says that the profit is never \<open>NaN\<close>. Two payments of
  \<open>1e308\<close> and two expenses of \<open>1e308\<close> in range, with no delivery at all: each total
  overflows to \<open>Infinity\<close>, and the profit \<open>Infinity - Infinity\<close> is \<open>NaN\<close>.
\<close>

theorem getDateRangeStats_profit_counterexample:
  "getDateRangeStats []
     [ex_paid ''A1'' (Finite ex_1e308), ex_paid ''A1'' (Finite ex_1e308)]
     [ex_spent (Finite ex_1e308), ex_spent (Finite ex_1e308)] ''2025-02-01'' ''2025-02-28''
   = \<lparr>s_deliveries = 0, s_bottlesDelivered = Finite 0, s_revenue = Finite 0,
      s_collected = PosInfinity, s_expenses = PosInfinity, s_profit = NaN,
      s_empties = Finite 0\<rparr>"
  by (simp add: getDateRangeStats_def ex_paid_def ex_spent_def ex_payment_def ex_expense_def
      plus_0_1e308 plus_1e308_1e308 inf_minus_inf del: js_plus.simps)

text \<open>
  C4, amended. For all collections and every range \<open>[a, b]\<close>, \<open>getDateRangeStats\<close> keeps
  the records whose date string lies between \<open>a\<close> and \<open>b\<close>, both ends included, and its
  profit is the total of \<open>amountReceived\<close> over the payments in range minus the total of
  \<open>amount\<close> over the expenses in range: collected minus expenses, whatever the deliveries
  and their revenue are. With no record in range every aggregate is zero. The profit
  is \<open>NaN\<close> only when one of the two totals is \<open>NaN\<close> or both are the same infinity.
\<close>

theorem getDateRangeStats_profit:
  "s_profit (getDateRangeStats ds ps es a b)
     = js_minus
         (js_sum (map p_amountReceived (filter (\<lambda>p. a \<le> p_date p \<and> p_date p \<le> b) ps)))
         (js_sum (map e_amount (filter (\<lambda>e. a \<le> e_date e \<and> e_date e \<le> b) es)))
   \<and> s_profit (getDateRangeStats ds ps es a b)
       = js_minus (s_collected (getDateRangeStats ds ps es a b))
           (s_expenses (getDateRangeStats ds ps es a b))
   \<and> s_profit (getDateRangeStats ds ps es a b) = s_profit (getDateRangeStats [] ps es a b)
   \<and> s_deliveries (getDateRangeStats ds ps es a b)
       = length (filter (\<lambda>d. a \<le> d_date d \<and> d_date d \<le> b) ds)
   \<and> s_revenue (getDateRangeStats ds ps es a b)
       = js_sum (map d_amount (filter (\<lambda>d. a \<le> d_date d \<and> d_date d \<le> b) ds))
   \<and> s_bottlesDelivered (getDateRangeStats ds ps es a b)
       = js_sum (map d_delivered (filter (\<lambda>d. a \<le> d_date d \<and> d_date d \<le> b) ds))
   \<and> s_empties (getDateRangeStats ds ps es a b)
       = js_sum (map d_collected (filter (\<lambda>d. a \<le> d_date d \<and> d_date d \<le> b) ds))
   \<and> ((\<forall>d \<in> set ds. \<not> (a \<le> d_date d \<and> d_date d \<le> b))
        \<and> (\<forall>p \<in> set ps. \<not> (a \<le> p_date p \<and> p_date p \<le> b))
        \<and> (\<forall>e \<in> set es. \<not> (a \<le> e_date e \<and> e_date e \<le> b))
      \<longrightarrow> getDateRangeStats ds ps es a b
          = \<lparr>s_deliveries = 0, s_bottlesDelivered = Finite 0, s_revenue = Finite 0,
             s_collected = Finite 0, s_expenses = Finite 0, s_profit = Finite 0,
             s_empties = Finite 0\<rparr>)
   \<and> (s_profit (getDateRangeStats ds ps es a b) = NaN \<longleftrightarrow>
        s_collected (getDateRangeStats ds ps es a b) = NaN
        \<or> s_expenses (getDateRangeStats ds ps es a b) = NaN
        \<or> (s_collected (getDateRangeStats ds ps es a b) = PosInfinity
            \<and> s_expenses (getDateRangeStats ds ps es a b) = PosInfinity)
        \<or> (s_collected (getDateRangeStats ds ps es a b) = NegInfinity
            \<and> s_expenses (getDateRangeStats ds ps es a b) = NegInfinity))"
proof (intro conjI impI)
  assume "(\<forall>d \<in> set ds. \<not> (a \<le> d_date d \<and> d_date d \<le> b))
        \<and> (\<forall>p \<in> set ps. \<not> (a \<le> p_date p \<and> p_date p \<le> b))
        \<and> (\<forall>e \<in> set es. \<not> (a \<le> e_date e \<and> e_date e \<le> b))"
  then have "filter (\<lambda>d. a \<le> d_date d \<and> d_date d \<le> b) ds = []"
    "filter (\<lambda>p. a \<le> p_date p \<and> p_date p \<le> b) ps = []"
    "filter (\<lambda>e. a \<le> e_date e \<and> e_date e \<le> b) es = []"
    by (simp_all add: filter_none)
  then show "getDateRangeStats ds ps es a b
          = \<lparr>s_deliveries = 0, s_bottlesDelivered = Finite 0, s_revenue = Finite 0,
             s_collected = Finite 0, s_expenses = Finite 0, s_profit = Finite 0,
             s_empties = Finite 0\<rparr>"
    by (simp add: getDateRangeStats_def js_minus_zero del: js_plus.simps)
next
  show "s_profit (getDateRangeStats ds ps es a b) = NaN \<longleftrightarrow>
        s_collected (getDateRangeStats ds ps es a b) = NaN
        \<or> s_expenses (getDateRangeStats ds ps es a b) = NaN
        \<or> (s_collected (getDateRangeStats ds ps es a b) = PosInfinity
            \<and> s_expenses (getDateRangeStats ds ps es a b) = PosInfinity)
        \<or> (s_collected (getDateRangeStats ds ps es a b) = NegInfinity
            \<and> s_expenses (getDateRangeStats ds ps es a b) = NegInfinity)"
    by (simp add: getDateRangeStats_def Let_def js_minus_NaN_iff)
qed (simp_all add: getDateRangeStats_def Let_def foldl_js_sum)

text \<open>
  From 10 to 15 February the worked ledger collected 100 and spent 50, on the two days
  that bound the range, with no delivery: the profit is 50 though the revenue is 0. On
  1 March nothing is in range.
\<close>

theorem getDateRangeStats_profit_witness:
  "getDateRangeStats [ex_delivery] [ex_payment] [ex_expense] ''2025-02-10'' ''2025-02-15''
     = \<lparr>s_deliveries = 0, s_bottlesDelivered = Finite 0, s_revenue = Finite 0,
        s_collected = Finite 100, s_expenses = Finite 50, s_profit = Finite 50,
        s_empties = Finite 0\<rparr>
   \<and> getDateRangeStats [ex_delivery] [ex_payment] [ex_expense] ''2025-03-01'' ''2025-03-01''
     = \<lparr>s_deliveries = 0, s_bottlesDelivered = Finite 0, s_revenue = Finite 0,
        s_collected = Finite 0, s_expenses = Finite 0, s_profit = Finite 0,
        s_empties = Finite 0\<rparr>"
proof -
  have "\<forall>d \<in> set [ex_delivery]. \<not> (''2025-03-01'' \<le> d_date d \<and> d_date d \<le> ''2025-03-01'')"
    by (simp add: ex_delivery_def)
  moreover
  have "\<forall>p \<in> set [ex_payment]. \<not> (''2025-03-01'' \<le> p_date p \<and> p_date p \<le> ''2025-03-01'')"
    by (simp add: ex_payment_def)
  moreover
  have "\<forall>e \<in> set [ex_expense]. \<not> (''2025-03-01'' \<le> e_date e \<and> e_date e \<le> ''2025-03-01'')"
    by (simp add: ex_expense_def)
  ultimately
  have "getDateRangeStats [ex_delivery] [ex_payment] [ex_expense] ''2025-03-01'' ''2025-03-01''
     = \<lparr>s_deliveries = 0, s_bottlesDelivered = Finite 0, s_revenue = Finite 0,
        s_collected = Finite 0, s_expenses = Finite 0, s_profit = Finite 0,
        s_empties = Finite 0\<rparr>"
    using getDateRangeStats_profit
      [of "[ex_delivery]" "[ex_payment]" "[ex_expense]" "''2025-03-01''" "''2025-03-01''"]
    by blast
  moreover
  have "getDateRangeStats [ex_delivery] [ex_payment] [ex_expense] ''2025-02-10'' ''2025-02-15''
     = \<lparr>s_deliveries = 0, s_bottlesDelivered = Finite 0, s_revenue = Finite 0,
        s_collected = Finite 100, s_expenses = Finite 50, s_profit = Finite 50,
        s_empties = Finite 0\<rparr>"
    by (simp add: getDateRangeStats_def ex_delivery_def ex_payment_def ex_expense_def js_eval)
  ultimately show ?thesis by simp
qed

section \<open>Overdue dues\<close>

text \<open>The first element of a list sorted by a key has the least key.\<close>

lemma first_sort_key:
  assumes "first (sort_key k xs) = Some x"
  shows "x \<in> set xs \<and> (\<forall>y \<in> set xs. k x \<le> k y)"
proof -
  from assms obtain rest where eq: "sort_key k xs = x # rest"
    by (auto simp: first_def split: list.splits)
  have "set (x # rest) = set xs"
    using eq set_sort [of k xs] by simp
  moreover have "sorted (map k (x # rest))"
    using eq sorted_sort_key [of k xs] by simp
  ultimately show ?thesis by auto
qed

lemma first_sort_key_None: "first (sort_key k xs) = None \<longleftrightarrow> xs = []"
proof -
  have "sort_key k xs = [] \<longleftrightarrow> xs = []"
    using length_sort [of k xs] by (metis length_0_conv)
  then show ?thesis by (auto simp: first_def split: list.splits)
qed

lemma in_getOverdueDues:
  "r \<in> set (getOverdueDues gt t cs ds ps) \<longleftrightarrow> (\<exists>c \<in> set cs. overdueEntry gt t ds ps c = Some r)"
  by (induction cs) (auto simp: getOverdueDues_def)

lemma overdueEntry_None:
  "overdueEntry gt t ds ps c = None
     \<longleftrightarrow> js_le (getCustomerOutstanding (c_flatNumber c) ds ps) (Finite 0)"
  by (simp add: overdueEntry_def Let_def)

lemma overdueEntry_Some:
  assumes "overdueEntry gt t ds ps c = Some r"
  shows "due_customer r = c"
    and "due_outstanding r = getCustomerOutstanding (c_flatNumber c) ds ps"
    and "\<not> js_le (due_outstanding r) (Finite 0)"
  using assms by (auto simp: overdueEntry_def Let_def split: if_splits)

lemma getOverdueDues_customers:
  "map due_customer (getOverdueDues gt t cs ds ps)
     = filter (\<lambda>c. \<not> js_le (getCustomerOutstanding (c_flatNumber c) ds ps) (Finite 0)) cs"
proof (induction cs)
  case Nil
  show ?case by (simp add: getOverdueDues_def)
next
  case (Cons c cs)
  show ?case
  proof (cases "overdueEntry gt t ds ps c")
    case None
    with Cons overdueEntry_None [of gt t ds ps c] show ?thesis
      by (simp add: getOverdueDues_def)
  next
    case (Some r)
    with Cons overdueEntry_Some [OF Some] show ?thesis
      by (simp add: getOverdueDues_def)
  qed
qed

lemma overdueEntry_last_delivery:
  assumes "overdueEntry gt t ds ps c = Some r"
    and "filter (\<lambda>d. d_flatNumber d = c_flatNumber c) ds \<noteq> []"
  shows "\<exists>d \<in> set ds. d_flatNumber d = c_flatNumber c
           \<and> (\<forall>d' \<in> set ds. d_flatNumber d' = c_flatNumber c \<longrightarrow> gt (d_date d') \<le> gt (d_date d))
           \<and> due_lastDeliveryDate r = d_date d
           \<and> due_isOverdue r = Some (gt (d_date d) < t - 30 * 86400000)
           \<and> due_daysPending r = (t - gt (d_date d)) div 86400000"
proof -
  let ?mine = "filter (\<lambda>d. d_flatNumber d = c_flatNumber c) ds"
  let ?k = "\<lambda>d. - gt (d_date d)"
  from assms(2) obtain d where d: "first (sort_key ?k ?mine) = Some d"
    using first_sort_key_None [of ?k ?mine] by (cases "first (sort_key ?k ?mine)") auto
  from first_sort_key [OF d]
  have 1: "d \<in> set ds" "d_flatNumber d = c_flatNumber c"
    and 2: "\<forall>d' \<in> set ds. d_flatNumber d' = c_flatNumber c \<longrightarrow> gt (d_date d') \<le> gt (d_date d)"
    by auto
  from assms(1) d
  have "due_lastDeliveryDate r = d_date d"
    "due_isOverdue r = Some (gt (d_date d) < t - 30 * 86400000)"
    "due_daysPending r = (t - gt (d_date d)) div 86400000"
    by (auto simp: overdueEntry_def Let_def split: if_splits)
  with 1 2 show ?thesis by blast
qed

text \<open>
  C5. \<open>getOverdueDues\<close> lists, in their order and each with its balance, exactly the
  customers whose outstanding balance (a binary64 value) is not \<open><= 0\<close>: a customer
  with outstanding \<open><= 0\<close> has no entry, a customer with outstanding \<open>> 0\<close> has one.
  A listed customer whose only delivery lies 40 days (at least 40 and less
  than 41 times 86400000 ms) before now has \<open>isOverdue = true\<close> and \<open>daysPending = 40\<close>.
  In general, for a listed customer with deliveries, the entry refers to a delivery of
  the latest date, \<open>isOverdue\<close> says that this date is more than 30 days before now,
  and \<open>daysPending\<close> is the number of whole days from it to now; for a listed customer
  without deliveries \<open>isOverdue\<close> is \<open>null\<close> and \<open>daysPending\<close> is 0.
\<close>

theorem getOverdueDues_spec:
  "map due_customer (getOverdueDues gt t cs ds ps)
     = filter (\<lambda>c. \<not> js_le (getCustomerOutstanding (c_flatNumber c) ds ps) (Finite 0)) cs
   \<and> (\<forall>r \<in> set (getOverdueDues gt t cs ds ps).
        \<not> js_le (due_outstanding r) (Finite 0)
        \<and> due_outstanding r = getCustomerOutstanding (c_flatNumber (due_customer r)) ds ps)
   \<and> (c \<in> set cs \<and> js_gt (getCustomerOutstanding (c_flatNumber c) ds ps) (Finite 0)
        \<and> filter (\<lambda>d. d_flatNumber d = c_flatNumber c) ds = [d]
        \<and> 40 * 86400000 \<le> t - gt (d_date d) \<and> t - gt (d_date d) < 41 * 86400000
      \<longrightarrow> (\<exists>r \<in> set (getOverdueDues gt t cs ds ps).
             due_customer r = c \<and> due_isOverdue r = Some True \<and> due_daysPending r = 40
             \<and> due_lastDeliveryDate r = d_date d))
   \<and> (r \<in> set (getOverdueDues gt t cs ds ps)
        \<and> filter (\<lambda>d. d_flatNumber d = c_flatNumber (due_customer r)) ds \<noteq> []
      \<longrightarrow> (\<exists>d \<in> set ds. d_flatNumber d = c_flatNumber (due_customer r)
             \<and> (\<forall>d' \<in> set ds. d_flatNumber d' = c_flatNumber (due_customer r)
                   \<longrightarrow> gt (d_date d') \<le> gt (d_date d))
             \<and> due_lastDeliveryDate r = d_date d
             \<and> due_isOverdue r = Some (gt (d_date d) < t - 30 * 86400000)
             \<and> due_daysPending r = (t - gt (d_date d)) div 86400000))
   \<and> (r \<in> set (getOverdueDues gt t cs ds ps)
        \<and> filter (\<lambda>d. d_flatNumber d = c_flatNumber (due_customer r)) ds = []
      \<longrightarrow> due_isOverdue r = None \<and> due_daysPending r = 0 \<and> due_lastDeliveryDate r = [])"
proof (intro conjI impI ballI)
  show "map due_customer (getOverdueDues gt t cs ds ps)
     = filter (\<lambda>c. \<not> js_le (getCustomerOutstanding (c_flatNumber c) ds ps) (Finite 0)) cs"
    by (rule getOverdueDues_customers)
next
  fix r assume "r \<in> set (getOverdueDues gt t cs ds ps)"
  then obtain c where "overdueEntry gt t ds ps c = Some r"
    by (auto simp: in_getOverdueDues)
  from overdueEntry_Some [OF this]
  show "\<not> js_le (due_outstanding r) (Finite 0)"
    and "due_outstanding r = getCustomerOutstanding (c_flatNumber (due_customer r)) ds ps"
    by simp_all
next
  assume a: "c \<in> set cs \<and> js_gt (getCustomerOutstanding (c_flatNumber c) ds ps) (Finite 0)
        \<and> filter (\<lambda>d. d_flatNumber d = c_flatNumber c) ds = [d]
        \<and> 40 * 86400000 \<le> t - gt (d_date d) \<and> t - gt (d_date d) < 41 * 86400000"
  then have pos: "\<not> js_le (getCustomerOutstanding (c_flatNumber c) ds ps) (Finite 0)"
    by (simp add: js_gt_not_le)
  then obtain r where r: "overdueEntry gt t ds ps c = Some r"
    using overdueEntry_None [of gt t ds ps c] by (cases "overdueEntry gt t ds ps c") auto
  from a have days: "(t - gt (d_date d)) div 86400000 = 40"
    by linarith
  from r a days pos
  have "due_customer r = c \<and> due_isOverdue r = Some True \<and> due_daysPending r = 40
             \<and> due_lastDeliveryDate r = d_date d"
    by (auto simp: overdueEntry_def Let_def first_def split: if_splits)
  moreover from r a have "r \<in> set (getOverdueDues gt t cs ds ps)"
    by (auto simp: in_getOverdueDues)
  ultimately show "\<exists>r \<in> set (getOverdueDues gt t cs ds ps).
             due_customer r = c \<and> due_isOverdue r = Some True \<and> due_daysPending r = 40
             \<and> due_lastDeliveryDate r = d_date d"
    by blast
next
  assume a: "r \<in> set (getOverdueDues gt t cs ds ps)
        \<and> filter (\<lambda>d. d_flatNumber d = c_flatNumber (due_customer r)) ds \<noteq> []"
  then obtain c where c: "overdueEntry gt t ds ps c = Some r"
    by (auto simp: in_getOverdueDues)
  with overdueEntry_Some(1) [OF c] a overdueEntry_last_delivery [OF c]
  show "\<exists>d \<in> set ds. d_flatNumber d = c_flatNumber (due_customer r)
             \<and> (\<forall>d' \<in> set ds. d_flatNumber d' = c_flatNumber (due_customer r)
                   \<longrightarrow> gt (d_date d') \<le> gt (d_date d))
             \<and> due_lastDeliveryDate r = d_date d
             \<and> due_isOverdue r = Some (gt (d_date d) < t - 30 * 86400000)
             \<and> due_daysPending r = (t - gt (d_date d)) div 86400000"
    by simp
next
  assume a: "r \<in> set (getOverdueDues gt t cs ds ps)
        \<and> filter (\<lambda>d. d_flatNumber d = c_flatNumber (due_customer r)) ds = []"
  then obtain c where c: "overdueEntry gt t ds ps c = Some r"
    by (auto simp: in_getOverdueDues)
  from a overdueEntry_Some(1) [OF c]
  have "filter (\<lambda>d. d_flatNumber d = c_flatNumber c) ds = []"
    by simp
  with c
  have "due_isOverdue r = None \<and> due_daysPending r = 0 \<and> due_lastDeliveryDate r = []"
    by (auto simp: overdueEntry_def Let_def first_def split: if_splits)
  then show "due_isOverdue r = None" and "due_daysPending r = 0" and "due_lastDeliveryDate r = []"
    by simp_all
qed

lemma ex_overdue:
  "getOverdueDues ex_getTime 1740823200000 [ex_customer] [ex_delivery] [ex_payment]
     = [\<lparr>due_customer = ex_customer, due_outstanding = Finite 200,
         due_lastDeliveryDate = ''2025-01-20'', due_lastPaymentDate = ''2025-02-10'',
         due_daysPending = 40, due_isOverdue = Some True\<rparr>]"
  by (simp add: getOverdueDues_def overdueEntry_def getCustomerOutstanding_def first_def
      ex_getTime_def ex_customer_def ex_delivery_def ex_payment_def Let_def js_eval)

text \<open>
  On 1 March, 10:00 UTC, the delivery of 20 January is 40 days old; once the balance is
  settled by the second payment the customer is no longer listed. On the ledger with
  fractional amounts flat G1 is not listed either: \<open>0.1 + 0.2 + 0.7\<close> is 1 in binary64
  and the balance is 0.
\<close>

theorem getOverdueDues_spec_witness:
  "getOverdueDues ex_getTime 1740823200000 [ex_customer] [ex_delivery] [ex_payment]
     = [\<lparr>due_customer = ex_customer, due_outstanding = Finite 200,
         due_lastDeliveryDate = ''2025-01-20'', due_lastPaymentDate = ''2025-02-10'',
         due_daysPending = 40, due_isOverdue = Some True\<rparr>]
   \<and> getOverdueDues ex_getTime 1740823200000 [ex_customer] [ex_delivery]
        [ex_payment, ex_new_payment] = []
   \<and> getOverdueDues ex_getTime 1740823200000 [ex_customer\<lparr>c_flatNumber := ''G1''\<rparr>]
        ex_frac_deliveries ex_frac_payments = []"
proof -
  let ?now = "1740823200000 :: int"
  let ?g = "ex_customer\<lparr>c_flatNumber := ''G1''\<rparr>"
  have hyp: "ex_customer \<in> set [ex_customer]
        \<and> js_gt (getCustomerOutstanding (c_flatNumber ex_customer) [ex_delivery] [ex_payment])
            (Finite 0)
        \<and> filter (\<lambda>d. d_flatNumber d = c_flatNumber ex_customer) [ex_delivery] = [ex_delivery]
        \<and> 40 * 86400000 \<le> ?now - ex_getTime (d_date ex_delivery)
        \<and> ?now - ex_getTime (d_date ex_delivery) < 41 * 86400000"
    by (simp add: ex_defs ex_getTime_def getCustomerOutstanding_def js_eval)
  from getOverdueDues_spec [where gt = ex_getTime and t = ?now and cs = "[ex_customer]"
      and ds = "[ex_delivery]" and ps = "[ex_payment]" and c = ex_customer and d = ex_delivery] hyp
  have listed: "\<exists>r \<in> set (getOverdueDues ex_getTime ?now [ex_customer] [ex_delivery] [ex_payment]).
          due_customer r = ex_customer \<and> due_isOverdue r = Some True \<and> due_daysPending r = 40
          \<and> due_lastDeliveryDate r = d_date ex_delivery"
    by blast
  from getOverdueDues_spec [where gt = ex_getTime and t = ?now and cs = "[ex_customer]"
      and ds = "[ex_delivery]" and ps = "[ex_payment, ex_new_payment]"]
  have "map due_customer (getOverdueDues ex_getTime ?now [ex_customer] [ex_delivery]
          [ex_payment, ex_new_payment])
        = filter (\<lambda>c. \<not> js_le (getCustomerOutstanding (c_flatNumber c) [ex_delivery]
                          [ex_payment, ex_new_payment]) (Finite 0)) [ex_customer]"
    by blast
  then have settled: "getOverdueDues ex_getTime ?now [ex_customer] [ex_delivery]
               [ex_payment, ex_new_payment] = []"
    by (simp add: ex_defs getCustomerOutstanding_def js_eval)
  from getOverdueDues_spec [where gt = ex_getTime and t = ?now and cs = "[?g]"
      and ds = ex_frac_deliveries and ps = ex_frac_payments]
  have "map due_customer (getOverdueDues ex_getTime ?now [?g] ex_frac_deliveries ex_frac_payments)
        = filter (\<lambda>c. \<not> js_le (getCustomerOutstanding (c_flatNumber c) ex_frac_deliveries
                          ex_frac_payments) (Finite 0)) [?g]"
    by blast
  then have "getOverdueDues ex_getTime ?now [?g] ex_frac_deliveries ex_frac_payments = []"
    by (simp add: ex_frac_G1 js_le_def)
  with listed settled ex_overdue show ?thesis by simp
qed

section \<open>Deleting a customer\<close>

lemma find_unique:
  assumes "c \<in> set xs" and "P c" and "\<forall>c' \<in> set xs. P c' \<longrightarrow> c' = c"
  shows "find P xs = Some c"
proof (cases "find P xs")
  case None
  with assms(1,2) show ?thesis by (auto simp: find_None_iff)
next
  case (Some c')
  then have "c' \<in> set xs \<and> P c'"
    by (auto simp: find_Some_iff)
  with assms(3) Some show ?thesis by auto
qed

lemma filter_others:
  assumes "\<forall>c' \<in> set xs. k c' = i \<longrightarrow> c' = c" and "k c = i"
  shows "filter (\<lambda>x. k x \<noteq> i) xs = filter (\<lambda>x. x \<noteq> c) xs"
proof (rule filter_cong [OF refl])
  fix x assume "x \<in> set xs"
  with assms show "(k x \<noteq> i) = (x \<noteq> c)" by blast
qed

lemma deleteCustomer_found:
  assumes "find (\<lambda>c. c_id c = i) (customers (data st)) = Some c"
  shows "deleteCustomer env i st =
           Inr (let D = \<lparr>customers = filter (\<lambda>x. c_id x \<noteq> i) (customers (data st)),
                         deliveries = filter (\<lambda>d. d_flatNumber d \<noteq> c_flatNumber c) (deliveries (data st)),
                         payments = filter (\<lambda>p. p_flatNumber p \<noteq> c_flatNumber c) (payments (data st)),
                         expenses = expenses (data st),
                         lastSaved = isoNow env\<rparr>
                in if confirmed env \<and> writes env D then st\<lparr>data := D\<rparr> else st)"
  by (simp add: deleteCustomer_def assms save_simps)

lemmas twin_defs = ex_twin_state_def ex_twin_def ex_twin_delivery_def initial_def ex_data_def
  ex_env_def ex_customer_def ex_delivery_def ex_payment_def ex_expense_def

text \<open>
  C6, as stated for every state, fails when two customer records share an id. In
  \<open>ex_twin_state\<close> the customer of flat B2 carries the id of the customer of flat A1.
  Deleting by that id finds the A1 record first: both customers go, the delivery to B2
  stays and the delivery to A1, which does not match B2, is removed.
\<close>

theorem deleteCustomer_cascade_counterexample:
  "ex_twin \<in> set (customers (data ex_twin_state))
   \<and> c_id ex_twin = ''cust_1737000000000'' \<and> c_flatNumber ex_twin = ''B2''
   \<and> deleteCustomer ex_env ''cust_1737000000000'' ex_twin_state
       = Inr (ex_twin_state\<lparr>data := \<lparr>customers = [], deliveries = [ex_twin_delivery],
                                      payments = [], expenses = [ex_expense],
                                      lastSaved = ''2025-03-01T10:00:00.000Z''\<rparr>\<rparr>)
   \<and> d_flatNumber ex_twin_delivery = ''B2'' \<and> d_flatNumber ex_delivery \<noteq> ''B2''"
  by (simp add: deleteCustomer_def save_simps writes_def twin_defs)

text \<open>
  C6, amended. Let the state contain a customer \<open>c\<close> with id \<open>i\<close> and flat number \<open>f\<close>,
  and no other customer record with id \<open>i\<close>. Then \<open>deleteCustomer i\<close>, when the user
  confirms and the save goes through, removes \<open>c\<close> and no other customer, removes the
  deliveries and payments whose flat number is \<open>f\<close> and no others, keeps the expenses
  and stamps \<open>lastSaved\<close>; otherwise it leaves the state as it is.
\<close>

theorem deleteCustomer_cascade:
  assumes "c \<in> set (customers (data st))" and "c_id c = i" and "c_flatNumber c = f"
    and "\<forall>c' \<in> set (customers (data st)). c_id c' = i \<longrightarrow> c' = c"
  shows "deleteCustomer env i st =
           Inr (let D = \<lparr>customers = filter (\<lambda>x. x \<noteq> c) (customers (data st)),
                         deliveries = filter (\<lambda>d. d_flatNumber d \<noteq> f) (deliveries (data st)),
                         payments = filter (\<lambda>p. p_flatNumber p \<noteq> f) (payments (data st)),
                         expenses = expenses (data st),
                         lastSaved = isoNow env\<rparr>
                in if confirmed env \<and> writes env D then st\<lparr>data := D\<rparr> else st)"
proof -
  have found: "find (\<lambda>c. c_id c = i) (customers (data st)) = Some c"
    using assms(1,2,4) by (rule find_unique)
  have others: "filter (\<lambda>x. c_id x \<noteq> i) (customers (data st))
                  = filter (\<lambda>x. x \<noteq> c) (customers (data st))"
    using assms(4,2) by (rule filter_others)
  show ?thesis
    unfolding deleteCustomer_found [OF found] others assms(3) ..
qed

text \<open>
  Deleting the only customer of the worked ledger empties the customers, deliveries and
  payments and keeps the expense; declining the dialog changes nothing.
\<close>

theorem deleteCustomer_cascade_witness:
  "deleteCustomer ex_env ''cust_1737000000000'' ex_state
     = Inr (ex_state\<lparr>data := \<lparr>customers = [], deliveries = [], payments = [],
                              expenses = [ex_expense],
                              lastSaved = ''2025-03-01T10:00:00.000Z''\<rparr>\<rparr>)
   \<and> deleteCustomer (ex_env\<lparr>confirmed := False\<rparr>) ''cust_1737000000000'' ex_state = Inr ex_state"
proof -
  have h1: "ex_customer \<in> set (customers (data ex_state))"
    by (simp add: ex_defs)
  have h2: "c_id ex_customer = ''cust_1737000000000''"
    by (simp add: ex_defs)
  have h3: "c_flatNumber ex_customer = ''A1''"
    by (simp add: ex_defs)
  have h4: "\<forall>c' \<in> set (customers (data ex_state)). c_id c' = ''cust_1737000000000'' \<longrightarrow> c' = ex_customer"
    by (simp add: ex_defs)
  show ?thesis
    using deleteCustomer_cascade [OF h1 h2 h3 h4, of ex_env]
      deleteCustomer_cascade [OF h1 h2 h3 h4, of "ex_env\<lparr>confirmed := False\<rparr>"]
    by (simp add: writes_def ex_defs)
qed

section \<open>Collection rate\<close>

text \<open>
  The value of the collection rate when nothing was billed: \<open>|| 0\<close> turns \<open>NaN\<close> (nothing
  collected either) into 0 and lets the infinities through.
\<close>

lemma collectionRate_cases:
  "collectionRate (Finite c) (Finite 0) =
     (if c = 0 then Finite 0 else if c > 0 then PosInfinity else NegInfinity)"
  by (simp add: collectionRate_def js_or0_def)

text \<open>
  C7. The claim that the rate is 0 whenever the total revenue is 0 fails on the code:
  a customer who is added and pays 100 before any delivery gives a total collected of
  100 and a total revenue of 0, and the printed rate is \<open>Infinity\<close>.
\<close>

theorem collectionRate_prepaid:
  "map_sum id (\<lambda>s. (totalCollected (data s), totalRevenue (data s), reportedRate (data s)))
     (run ex_prepaid_run (initial empty_data ''2025-03-01''))
     = Inr (Finite 100, Finite 0, PosInfinity)
   \<and> collectionRate (Finite 100) (Finite 0) = PosInfinity"
  by (simp add: ex_prepaid_run_def initial_def empty_data_def ex_env_def ex_paymentForm_def
      addCustomer_def addPayment_def save_simps writes_def
      getCustomerOutstanding_def paymentStatus_def getTodayString_def decimal.simps
      totalCollected_def totalRevenue_def reportedRate_def collectionRate_cases js_eval)

section \<open>Saving\<close>

text \<open>
  C8. For every user key, partial update and current snapshot, \<open>saveData\<close> returns a
  snapshot and never an exception. When the write succeeds it returns the current
  snapshot overlaid with the fields the update names and stamped with the fresh
  \<open>lastSaved\<close>; the fields the update does not name are those of the current snapshot.
  When the write throws it returns the current snapshot as it was.
\<close>

theorem saveData_total:
  "(\<exists>d. saveData write t uid upd cur = Inr d)
   \<and> (write (''crm_'' @ uid) (spread cur upd t) = Inr ()
        \<longrightarrow> saveData write t uid upd cur = Inr (spread cur upd t))
   \<and> (write (''crm_'' @ uid) (spread cur upd t) = Inl e
        \<longrightarrow> saveData write t uid upd cur = Inr cur)
   \<and> lastSaved (spread cur upd t) = t
   \<and> customers (spread cur upd t)
       = (case u_customers upd of None \<Rightarrow> customers cur | Some v \<Rightarrow> v)
   \<and> deliveries (spread cur upd t)
       = (case u_deliveries upd of None \<Rightarrow> deliveries cur | Some v \<Rightarrow> v)
   \<and> payments (spread cur upd t)
       = (case u_payments upd of None \<Rightarrow> payments cur | Some v \<Rightarrow> v)
   \<and> expenses (spread cur upd t)
       = (case u_expenses upd of None \<Rightarrow> expenses cur | Some v \<Rightarrow> v)"
  by (simp add: saveData_Inr spread_def)

text \<open>Clearing the expenses of the worked ledger, on a medium that accepts and on one that is full.\<close>

theorem saveData_total_witness:
  "saveData (\<lambda>key value. Inr ()) ''2025-03-01T10:00:00.000Z'' ''user_1''
      (noUpdates\<lparr>u_expenses := Some []\<rparr>) ex_data
     = Inr (ex_data\<lparr>expenses := [], lastSaved := ''2025-03-01T10:00:00.000Z''\<rparr>)
   \<and> saveData (\<lambda>key value. Inl QuotaExceededError) ''2025-03-01T10:00:00.000Z'' ''user_1''
      (noUpdates\<lparr>u_expenses := Some []\<rparr>) ex_data
     = Inr ex_data"
proof -
  let ?t = "''2025-03-01T10:00:00.000Z''"
  let ?u = "noUpdates\<lparr>u_expenses := Some []\<rparr>"
  have ok: "(\<lambda>key value. Inr ()) (''crm_'' @ ''user_1'') (spread ex_data ?u ?t) = (Inr () :: error + unit)"
    by simp
  have ko: "(\<lambda>key value. Inl QuotaExceededError) (''crm_'' @ ''user_1'') (spread ex_data ?u ?t)
              = (Inl QuotaExceededError :: error + unit)"
    by simp
  have "spread ex_data ?u ?t = ex_data\<lparr>expenses := [], lastSaved := ?t\<rparr>"
    by (simp add: spread_def noUpdates_def ex_data_def)
  with saveData_total [of "\<lambda>key value. Inr ()" ?t "''user_1''" ?u ex_data] ok
    saveData_total [of "\<lambda>key value. Inl QuotaExceededError" ?t "''user_1''" ?u ex_data QuotaExceededError] ko
  show ?thesis by simp
qed

section \<open>Unknown flat numbers\<close>

lemma find_absent:
  "v \<notin> set (map k xs) \<Longrightarrow> find (\<lambda>x. k x = v) xs = None"
  by (auto simp: find_None_iff)

text \<open>
  C9. When the flat number in the form matches no customer, \<open>addDelivery\<close> and
  \<open>addPayment\<close> create nothing: the collections are unchanged, and when the required
  fields are filled in the whole state is unchanged, so no message is shown. Only the
  missing-field check, which comes first, shows a message (and \<open>alert\<close> touches nothing
  but the messages).
\<close>

theorem add_unknown_flat_noop:
  "(df_flatNumber (deliveryForm st) \<notin> set (map c_flatNumber (customers (data st)))
      \<longrightarrow> addDelivery env st =
            Inr (if df_date (deliveryForm st) = [] \<or> df_flatNumber (deliveryForm st) = []
                    \<or> df_delivered (deliveryForm st) = Finite 0
                 then alert ''Please fill required fields'' st else st))
   \<and> (pf_flatNumber (paymentForm st) \<notin> set (map c_flatNumber (customers (data st)))
      \<longrightarrow> addPayment env st =
            Inr (if pf_date (paymentForm st) = [] \<or> pf_flatNumber (paymentForm st) = []
                    \<or> pf_amountReceived (paymentForm st) = Finite 0
                 then alert ''Please fill required fields'' st else st))
   \<and> data (alert msg st) = data st
   \<and> alerts (alert msg st) = alerts st @ [msg]"
proof (intro conjI impI)
  assume "df_flatNumber (deliveryForm st) \<notin> set (map c_flatNumber (customers (data st)))"
  from find_absent [OF this]
  show "addDelivery env st =
            Inr (if df_date (deliveryForm st) = [] \<or> df_flatNumber (deliveryForm st) = []
                    \<or> df_delivered (deliveryForm st) = Finite 0
                 then alert ''Please fill required fields'' st else st)"
    by (simp add: addDelivery_def Let_def)
next
  assume "pf_flatNumber (paymentForm st) \<notin> set (map c_flatNumber (customers (data st)))"
  from find_absent [OF this]
  show "addPayment env st =
            Inr (if pf_date (paymentForm st) = [] \<or> pf_flatNumber (paymentForm st) = []
                    \<or> pf_amountReceived (paymentForm st) = Finite 0
                 then alert ''Please fill required fields'' st else st)"
    by (simp add: addPayment_def Let_def)
next
  show "data (alert msg st) = data st"
    by (simp add: alert_def)
next
  show "alerts (alert msg st) = alerts st @ [msg]"
    by (simp add: alert_def)
qed

text \<open>A delivery to the unknown flat Z9 and a payment for \<open>a1\<close>, where the customer is A1.\<close>

theorem add_unknown_flat_noop_witness:
  "addDelivery ex_env
     (ex_state\<lparr>deliveryForm := \<lparr>df_date = ''2025-03-01'', df_flatNumber = ''Z9'',
                                 df_delivered = Finite 2, df_collected = Finite 0, df_notes = []\<rparr>\<rparr>)
     = Inr (ex_state\<lparr>deliveryForm := \<lparr>df_date = ''2025-03-01'', df_flatNumber = ''Z9'',
                                      df_delivered = Finite 2, df_collected = Finite 0, df_notes = []\<rparr>\<rparr>)
   \<and> addPayment ex_env (ex_state\<lparr>paymentForm := ex_paymentForm ''a1'' (Finite 200)\<rparr>)
     = Inr (ex_state\<lparr>paymentForm := ex_paymentForm ''a1'' (Finite 200)\<rparr>)"
proof -
  let ?sd = "ex_state\<lparr>deliveryForm := \<lparr>df_date = ''2025-03-01'', df_flatNumber = ''Z9'',
                                 df_delivered = Finite 2, df_collected = Finite 0, df_notes = []\<rparr>\<rparr>"
  let ?sp = "ex_state\<lparr>paymentForm := ex_paymentForm ''a1'' (Finite 200)\<rparr>"
  have d: "df_flatNumber (deliveryForm ?sd) \<notin> set (map c_flatNumber (customers (data ?sd)))"
    by (simp add: ex_defs)
  have p: "pf_flatNumber (paymentForm ?sp) \<notin> set (map c_flatNumber (customers (data ?sp)))"
    by (simp add: ex_defs)
  from add_unknown_flat_noop [of ?sd ex_env] d add_unknown_flat_noop [of ?sp ex_env] p
  show ?thesis
    by (simp add: ex_defs)
qed

section \<open>Flat numbers and letter case\<close>

lemma filter_flat_others:
  assumes "g \<noteq> f"
  shows "filter (\<lambda>x. k x = f) (filter (\<lambda>x. k x \<noteq> g) xs) = filter (\<lambda>x. k x = f) xs"
proof -
  have "filter (\<lambda>x. k x = f) (filter (\<lambda>x. k x \<noteq> g) xs) = filter (\<lambda>x. k x \<noteq> g \<and> k x = f) xs"
    by simp
  also have "\<dots> = filter (\<lambda>x. k x = f) xs"
    using assms by (intro filter_cong [OF refl]) blast
  finally show ?thesis .
qed

lemma getCustomerOutstanding_others:
  assumes "g \<noteq> f"
  shows "getCustomerOutstanding f (filter (\<lambda>d. d_flatNumber d \<noteq> g) ds)
           (filter (\<lambda>p. p_flatNumber p \<noteq> g) ps) = getCustomerOutstanding f ds ps"
  unfolding getCustomerOutstanding_def
    filter_flat_others [OF assms, of d_flatNumber] filter_flat_others [OF assms, of p_flatNumber] ..

lemma overdueEntry_others:
  assumes "g \<noteq> c_flatNumber c"
  shows "overdueEntry gt t (filter (\<lambda>d. d_flatNumber d \<noteq> g) ds)
           (filter (\<lambda>p. p_flatNumber p \<noteq> g) ps) c = overdueEntry gt t ds ps c"
  unfolding overdueEntry_def getCustomerOutstanding_others [OF assms]
    filter_flat_others [OF assms, of d_flatNumber] filter_flat_others [OF assms, of p_flatNumber] ..

lemma withRevenue_others:
  assumes "\<forall>c \<in> set cs. c_flatNumber c \<noteq> g"
  shows "withRevenue cs (filter (\<lambda>d. d_flatNumber d \<noteq> g) ds) = withRevenue cs ds"
  unfolding withRevenue_def
proof (rule map_cong [OF refl])
  fix c assume "c \<in> set cs"
  with assms have "g \<noteq> c_flatNumber c" by blast
  from filter_flat_others [OF this, of d_flatNumber ds]
  show "(c, foldl (\<lambda>sum d. js_plus sum (d_amount d)) (Finite 0)
              (filter (\<lambda>d. d_flatNumber d = c_flatNumber c)
                 (filter (\<lambda>d. d_flatNumber d \<noteq> g) ds)))
        = (c, foldl (\<lambda>sum d. js_plus sum (d_amount d)) (Finite 0)
                (filter (\<lambda>d. d_flatNumber d = c_flatNumber c) ds))"
    by simp
qed

text \<open>
  C10. The ledger matches flat numbers by equality of strings: for \<open>g \<noteq> f\<close>, also when
  they differ in letter case only, the records under \<open>g\<close> contribute nothing to the
  outstanding balance of \<open>f\<close> (dropping them changes nothing, and a ledger that has only
  them gives 0), nor to the overdue entries or to the revenues and the ranking of the top
  customers when no customer has flat number \<open>g\<close>, whatever \<open>Array.prototype.sort\<close> does.
  \<open>addCustomer\<close>, in contrast, compares after \<open>toLowerCase\<close>, whatever its case mapping
  is, and rejects a flat number that an existing customer has up to letter case.
\<close>

theorem flat_number_case_sensitive:
  "(g \<noteq> f \<longrightarrow>
      getCustomerOutstanding f ds ps
        = getCustomerOutstanding f (filter (\<lambda>d. d_flatNumber d \<noteq> g) ds)
            (filter (\<lambda>p. p_flatNumber p \<noteq> g) ps))
   \<and> (g \<noteq> f \<and> (\<forall>d \<in> set ds. d_flatNumber d = g) \<and> (\<forall>p \<in> set ps. p_flatNumber p = g)
      \<longrightarrow> getCustomerOutstanding f ds ps = Finite 0)
   \<and> ((\<forall>c \<in> set cs. c_flatNumber c \<noteq> g) \<longrightarrow>
      getOverdueDues gt t cs ds ps
        = getOverdueDues gt t cs (filter (\<lambda>d. d_flatNumber d \<noteq> g) ds)
            (filter (\<lambda>p. p_flatNumber p \<noteq> g) ps))
   \<and> ((\<forall>c \<in> set cs. c_flatNumber c \<noteq> g) \<longrightarrow>
      withRevenue cs ds = withRevenue cs (filter (\<lambda>d. d_flatNumber d \<noteq> g) ds)
      \<and> topCustomers arraySort cs ds
          = topCustomers arraySort cs (filter (\<lambda>d. d_flatNumber d \<noteq> g) ds))
   \<and> (cf_flatNumber (customerForm st) \<noteq> [] \<and> cf_name (customerForm st) \<noteq> []
        \<and> c \<in> set (customers (data st))
        \<and> toLowerCase env (c_flatNumber c) = toLowerCase env (cf_flatNumber (customerForm st))
      \<longrightarrow> addCustomer env st = Inr (alert ''Flat number exists!'' st))"
proof (intro conjI impI)
  assume "g \<noteq> f"
  then show "getCustomerOutstanding f ds ps
        = getCustomerOutstanding f (filter (\<lambda>d. d_flatNumber d \<noteq> g) ds)
            (filter (\<lambda>p. p_flatNumber p \<noteq> g) ps)"
    by (simp add: getCustomerOutstanding_others)
next
  assume a: "g \<noteq> f \<and> (\<forall>d \<in> set ds. d_flatNumber d = g) \<and> (\<forall>p \<in> set ps. p_flatNumber p = g)"
  then have "filter (\<lambda>d. d_flatNumber d = f) ds = []" "filter (\<lambda>p. p_flatNumber p = f) ps = []"
    by (auto intro!: filter_none)
  then show "getCustomerOutstanding f ds ps = Finite 0"
    by (simp add: getCustomerOutstanding_def js_minus_zero)
next
  assume "\<forall>c \<in> set cs. c_flatNumber c \<noteq> g"
  then have "map (overdueEntry gt t (filter (\<lambda>d. d_flatNumber d \<noteq> g) ds)
                   (filter (\<lambda>p. p_flatNumber p \<noteq> g) ps)) cs
             = map (overdueEntry gt t ds ps) cs"
    by (intro map_cong [OF refl] overdueEntry_others) blast
  then show "getOverdueDues gt t cs ds ps
        = getOverdueDues gt t cs (filter (\<lambda>d. d_flatNumber d \<noteq> g) ds)
            (filter (\<lambda>p. p_flatNumber p \<noteq> g) ps)"
    by (simp only: getOverdueDues_def)
next
  assume "\<forall>c \<in> set cs. c_flatNumber c \<noteq> g"
  then show "withRevenue cs ds = withRevenue cs (filter (\<lambda>d. d_flatNumber d \<noteq> g) ds)"
    by (simp only: withRevenue_others)
next
  assume "\<forall>c \<in> set cs. c_flatNumber c \<noteq> g"
  then show "topCustomers arraySort cs ds
          = topCustomers arraySort cs (filter (\<lambda>d. d_flatNumber d \<noteq> g) ds)"
    by (simp only: topCustomers_def withRevenue_others)
next
  assume a: "cf_flatNumber (customerForm st) \<noteq> [] \<and> cf_name (customerForm st) \<noteq> []
        \<and> c \<in> set (customers (data st))
        \<and> toLowerCase env (c_flatNumber c) = toLowerCase env (cf_flatNumber (customerForm st))"
  then have "find (\<lambda>c. toLowerCase env (c_flatNumber c)
                          = toLowerCase env (cf_flatNumber (customerForm st)))
               (customers (data st)) \<noteq> None"
    by (auto simp: find_None_iff)
  with a show "addCustomer env st = Inr (alert ''Flat number exists!'' st)"
    by (simp add: addCustomer_def Let_def)
qed

text \<open>
  \<open>a1\<close> and \<open>A1\<close>: the same to \<open>addCustomer\<close>, but the 300 billed and 100 paid under
  A1 leave \<open>a1\<close> with no balance, no overdue entry and no revenue.
\<close>

theorem flat_number_case_sensitive_witness:
  "lowerAscii ''a1'' = lowerAscii ''A1'' \<and> ''a1'' \<noteq> ''A1''
   \<and> getCustomerOutstanding ''A1'' [ex_delivery] [ex_payment] = Finite 200
   \<and> getCustomerOutstanding ''a1'' [ex_delivery] [ex_payment] = Finite 0
   \<and> getOverdueDues ex_getTime 1740823200000 [ex_customer\<lparr>c_flatNumber := ''a1''\<rparr>]
        [ex_delivery] [ex_payment] = []
   \<and> topCustomers sortBy [ex_customer] [ex_delivery] = [(ex_customer, Finite 300)]
   \<and> topCustomers sortBy [ex_customer\<lparr>c_flatNumber := ''a1''\<rparr>] [ex_delivery]
       = [(ex_customer\<lparr>c_flatNumber := ''a1''\<rparr>, Finite 0)]
   \<and> addCustomer ex_env
        (ex_state\<lparr>customerForm := \<lparr>cf_flatNumber = ''a1'', cf_name = ''Asad'', cf_phone = [],
                                    cf_rate = Finite 30\<rparr>\<rparr>)
       = Inr (alert ''Flat number exists!''
               (ex_state\<lparr>customerForm := \<lparr>cf_flatNumber = ''a1'', cf_name = ''Asad'',
                                           cf_phone = [], cf_rate = Finite 30\<rparr>\<rparr>))"
proof -
  let ?st = "ex_state\<lparr>customerForm := \<lparr>cf_flatNumber = ''a1'', cf_name = ''Asad'', cf_phone = [],
                                    cf_rate = Finite 30\<rparr>\<rparr>"
  let ?cs = "[ex_customer\<lparr>c_flatNumber := ''a1''\<rparr>]"
  have low: "lowerAscii ''a1'' = lowerAscii ''A1''"
    by (simp add: lowerAscii_def)
  have ne: "''A1'' \<noteq> ''a1''"
    by simp
  have all: "(\<forall>d \<in> set [ex_delivery]. d_flatNumber d = ''A1'')
             \<and> (\<forall>p \<in> set [ex_payment]. p_flatNumber p = ''A1'')"
    by (simp add: ex_defs)
  have cs: "\<forall>c \<in> set ?cs. c_flatNumber c \<noteq> ''A1''"
    by simp
  have form: "cf_flatNumber (customerForm ?st) \<noteq> [] \<and> cf_name (customerForm ?st) \<noteq> []
        \<and> ex_customer \<in> set (customers (data ?st))
        \<and> toLowerCase ex_env (c_flatNumber ex_customer)
            = toLowerCase ex_env (cf_flatNumber (customerForm ?st))"
    by (simp add: ex_defs lowerAscii_def)
  note inst = flat_number_case_sensitive
    [where g = "''A1''" and f = "''a1''" and ds = "[ex_delivery]" and ps = "[ex_payment]"
       and cs = ?cs and gt = ex_getTime and t = 1740823200000 and arraySort = sortBy
       and st = ?st and c = ex_customer and env = ex_env]
  from inst ne all
  have zero: "getCustomerOutstanding ''a1'' [ex_delivery] [ex_payment] = Finite 0"
    by blast
  from inst cs
  have "getOverdueDues ex_getTime 1740823200000 ?cs [ex_delivery] [ex_payment]
        = getOverdueDues ex_getTime 1740823200000 ?cs
            (filter (\<lambda>d. d_flatNumber d \<noteq> ''A1'') [ex_delivery])
            (filter (\<lambda>p. p_flatNumber p \<noteq> ''A1'') [ex_payment])"
    by blast
  then have none: "getOverdueDues ex_getTime 1740823200000 ?cs [ex_delivery] [ex_payment] = []"
    by (simp add: ex_defs getOverdueDues_def overdueEntry_def getCustomerOutstanding_def
        js_eval)
  from inst cs
  have "topCustomers sortBy ?cs [ex_delivery]
        = topCustomers sortBy ?cs (filter (\<lambda>d. d_flatNumber d \<noteq> ''A1'') [ex_delivery])"
    by blast
  then have top0: "topCustomers sortBy ?cs [ex_delivery]
                    = [(ex_customer\<lparr>c_flatNumber := ''a1''\<rparr>, Finite 0)]"
    by (simp add: ex_defs topCustomers_def withRevenue_def sortBy_def)
  have top: "topCustomers sortBy [ex_customer] [ex_delivery] = [(ex_customer, Finite 300)]"
    by (simp add: ex_defs topCustomers_def withRevenue_def sortBy_def js_eval)
  from inst form
  have rej: "addCustomer ex_env ?st = Inr (alert ''Flat number exists!'' ?st)"
    by blast
  have "getCustomerOutstanding ''A1'' [ex_delivery] [ex_payment] = Finite 200"
    by (simp add: ex_defs getCustomerOutstanding_def js_eval)
  with low ne zero none top0 top rej show ?thesis
    by simp
qed

end
